theory Spec2Isabelle
  imports Main "HOL-Library.Multiset"
begin

section \<open>JavaScript values\<close>

text \<open>
  The handlers of \<^verbatim>\<open>src/api/expense.js\<close> and \<^verbatim>\<open>src/api/expenses.js\<close> work on
  dynamically typed values: the parsed request body, its four fields, and the records of
  the in-memory array \<^verbatim>\<open>expenses\<close>.

  Strings are lists of code units below 256. A Number is \<open>NaN\<close>, an infinity, or a
  finite value \<open>m * 10 ^ e\<close> kept as the pair \<open>Dec m e\<close> with \<open>m\<close> free of trailing
  zeros (the digits that \<^verbatim>\<open>Number.prototype.toString\<close> prints); the two zeros are not
  told apart, since nothing in the handlers can tell them apart. Values too large or too
  small for a binary64 become an infinity or zero; rounding of the digits inside the
  range is not modelled, and no handler does arithmetic on a Number.
\<close>

datatype number = NaN | PosInfinity | NegInfinity | Dec int int

datatype jsval =
    JUndefined
  | JNull
  | JBool bool
  | JNum number
  | JStr string
  | JArr "jsval list"
  | JObj "(string \<times> jsval) list"

datatype js_error = TypeError

subsection \<open>Characters and digits\<close>

definition is_digit :: "char \<Rightarrow> bool" where
  "is_digit c = (c \<in> set ''0123456789'')"

definition digit_val :: "char \<Rightarrow> nat" where
  "digit_val c = of_char c - 48"

definition digit_char :: "nat \<Rightarrow> char" where
  "digit_char n = ''0123456789'' ! n"

text \<open>White space and line terminators among the code units below 256.\<close>

definition is_ws :: "char \<Rightarrow> bool" where
  "is_ws c = (c \<in> set [CHR 0x09, CHR 0x0A, CHR 0x0B, CHR 0x0C, CHR 0x0D, CHR 0x20, CHR 0xA0])"

fun digits_of :: "nat \<Rightarrow> string" where
  "digits_of n = (if n < 10 then [digit_char n] else digits_of (n div 10) @ [digit_char (n mod 10)])"

declare digits_of.simps [simp del]

definition nat_of_digits :: "string \<Rightarrow> nat" where
  "nat_of_digits ds = foldl (\<lambda>a c. 10 * a + digit_val c) 0 ds"

text \<open>\<^verbatim>\<open>String.prototype.trim\<close>.\<close>

definition trim :: "string \<Rightarrow> string" where
  "trim s = rev (dropWhile is_ws (rev (dropWhile is_ws s)))"

subsection \<open>Numbers\<close>

function mk_dec :: "int \<Rightarrow> int \<Rightarrow> number" where
  "mk_dec m e =
     (if m = 0 then Dec 0 0
      else if m mod 10 = 0 then mk_dec (m div 10) (e + 1)
      else Dec m e)"
  by pat_completeness auto
termination
  by (relation "measure (\<lambda>(m, e). nat \<bar>m\<bar>)") auto

declare mk_dec.simps [simp del]

text \<open>
  The range of a binary64 under round-to-nearest: a magnitude of at least
  \<open>2^1024 - 2^970\<close> rounds to an infinity, one of at most \<open>2^-1075\<close> to zero.
\<close>

definition overflows :: "nat \<Rightarrow> int \<Rightarrow> bool" where
  "overflows a e =
     (if 0 \<le> e then 2 ^ 1024 - 2 ^ 970 \<le> int a * 10 ^ nat e
      else (2 ^ 1024 - 2 ^ 970) * 10 ^ nat (- e) \<le> int a)"

definition underflows :: "nat \<Rightarrow> int \<Rightarrow> bool" where
  "underflows a e = (e < 0 \<and> int a * 2 ^ 1075 \<le> 10 ^ nat (- e))"

definition round_number :: "bool \<Rightarrow> nat \<Rightarrow> int \<Rightarrow> number" where
  "round_number neg a e =
     (if a = 0 then Dec 0 0
      else if overflows a e then (if neg then NegInfinity else PosInfinity)
      else if underflows a e then Dec 0 0
      else mk_dec (if neg then - int a else int a) e)"

text \<open>\<^verbatim>\<open>Number::toString\<close> with radix 10, on the digits \<open>s\<close> and the exponent \<open>e\<close>.\<close>

definition unsigned_to_string :: "nat \<Rightarrow> int \<Rightarrow> string" where
  "unsigned_to_string s e =
     (let ds = digits_of s; k = int (length ds); n = e + k in
      if - 6 < n \<and> n \<le> 21 then
        (if k \<le> n then ds @ replicate (nat (n - k)) (CHR ''0'')
         else if 0 < n then take (nat n) ds @ ''.'' @ drop (nat n) ds
         else ''0.'' @ replicate (nat (- n)) (CHR ''0'') @ ds)
      else
        (let x = n - 1;
             es = (if 0 \<le> x then ''+'' else ''-'') @ digits_of (nat \<bar>x\<bar>)
         in if k = 1 then ds @ ''e'' @ es
            else take 1 ds @ ''.'' @ drop 1 ds @ ''e'' @ es))"

definition number_to_string :: "number \<Rightarrow> string" where
  "number_to_string x =
     (case x of
        NaN \<Rightarrow> ''NaN''
      | PosInfinity \<Rightarrow> ''Infinity''
      | NegInfinity \<Rightarrow> ''-Infinity''
      | Dec m e \<Rightarrow>
          if m = 0 then ''0''
          else (if m < 0 then ''-'' else []) @ unsigned_to_string (nat \<bar>m\<bar>) e)"

subsection \<open>Conversions\<close>

definition join_comma :: "string list \<Rightarrow> string" where
  "join_comma ss = (case ss of [] \<Rightarrow> [] | s # r \<Rightarrow> foldl (\<lambda>a t. a @ '','' @ t) s r)"

text \<open>The results of a list of conversions, or the first error among them.\<close>

fun collect :: "('e + 'a) list \<Rightarrow> 'e + 'a list" where
  "collect [] = Inr []"
| "collect (Inl err # rs) = Inl err"
| "collect (Inr x # rs) = (case collect rs of Inl err \<Rightarrow> Inl err | Inr xs \<Rightarrow> Inr (x # xs))"

text \<open>
  \<^verbatim>\<open>ToString\<close>. An array joins the conversions of its elements, with nothing for
  \<open>undefined\<close> and \<^verbatim>\<open>null\<close>. A plain object is converted by the method found under
  \<^verbatim>\<open>toString\<close>: the inherited one gives a fixed string, but a property \<^verbatim>\<open>toString\<close> of
  the object itself hides it, and since no value of a parsed body can be called (and
  \<^verbatim>\<open>valueOf\<close> gives no primitive either), the conversion then throws a \<^verbatim>\<open>TypeError\<close>.
\<close>

fun to_string :: "jsval \<Rightarrow> js_error + string" where
  "to_string JUndefined = Inr ''undefined''"
| "to_string JNull = Inr ''null''"
| "to_string (JBool b) = Inr (if b then ''true'' else ''false'')"
| "to_string (JNum n) = Inr (number_to_string n)"
| "to_string (JStr s) = Inr s"
| "to_string (JArr xs) =
     (case collect (map (\<lambda>x. if x = JUndefined \<or> x = JNull then Inr [] else to_string x) xs) of
        Inl err \<Rightarrow> Inl err
      | Inr ss \<Rightarrow> Inr (join_comma ss))"
| "to_string (JObj kvs) =
     (if map_of kvs ''toString'' = None then Inr ''[object Object]'' else Inl TypeError)"

text \<open>\<^verbatim>\<open>ToBoolean\<close>, as \<^verbatim>\<open>!x\<close> uses it.\<close>

fun truthy :: "jsval \<Rightarrow> bool" where
  "truthy JUndefined = False"
| "truthy JNull = False"
| "truthy (JBool b) = b"
| "truthy (JNum n) = (case n of NaN \<Rightarrow> False | Dec m e \<Rightarrow> m \<noteq> 0 | _ \<Rightarrow> True)"
| "truthy (JStr s) = (s \<noteq> [])"
| "truthy (JArr xs) = True"
| "truthy (JObj kvs) = True"

text \<open>Reading a property; a value that is not an object with that key gives \<open>undefined\<close>.\<close>

fun get_prop :: "jsval \<Rightarrow> string \<Rightarrow> jsval" where
  "get_prop (JObj kvs) k = (case map_of kvs k of None \<Rightarrow> JUndefined | Some v \<Rightarrow> v)"
| "get_prop v k = JUndefined"

subsection \<open>\<^verbatim>\<open>parseFloat\<close>\<close>

text \<open>
  \<^verbatim>\<open>parseFloat\<close> converts its argument to a string (which may throw), skips leading white space and
  reads the longest prefix that is a \<^verbatim>\<open>StrDecimalLiteral\<close>: an optional sign, then
  \<^verbatim>\<open>Infinity\<close> or digits with an optional fraction and an optional exponent. Whatever
  follows the prefix is ignored; with no such prefix the result is \<open>NaN\<close>.
\<close>

definition split_sign :: "string \<Rightarrow> bool \<times> string" where
  "split_sign s =
     (case s of
        [] \<Rightarrow> (False, s)
      | c # r \<Rightarrow> if c = CHR ''-'' then (True, r) else if c = CHR ''+'' then (False, r) else (False, s))"

definition signed_integer :: "string \<Rightarrow> int option" where
  "signed_integer s =
     (let (neg, r) = split_sign s; ds = takeWhile is_digit r
      in if ds = [] then None
         else Some (if neg then - int (nat_of_digits ds) else int (nat_of_digits ds)))"

definition exponent_part :: "string \<Rightarrow> int" where
  "exponent_part s =
     (case s of
        [] \<Rightarrow> 0
      | c # r \<Rightarrow>
          if c = CHR ''e'' \<or> c = CHR ''E''
          then (case signed_integer r of None \<Rightarrow> 0 | Some x \<Rightarrow> x)
          else 0)"

definition unsigned_decimal :: "string \<Rightarrow> (nat \<times> int) option" where
  "unsigned_decimal s =
     (let ip = takeWhile is_digit s; r = dropWhile is_digit s in
      if r \<noteq> [] \<and> hd r = CHR ''.'' then
        (let fp = takeWhile is_digit (tl r); r' = dropWhile is_digit (tl r) in
         if ip = [] \<and> fp = [] then None
         else Some (nat_of_digits (ip @ fp), exponent_part r' - int (length fp)))
      else if ip = [] then None
      else Some (nat_of_digits ip, exponent_part r))"

definition parse_float_string :: "string \<Rightarrow> number" where
  "parse_float_string s =
     (let (neg, u) = split_sign (dropWhile is_ws s) in
      if take 8 u = ''Infinity'' then (if neg then NegInfinity else PosInfinity)
      else (case unsigned_decimal u of
              None \<Rightarrow> NaN
            | Some (a, e) \<Rightarrow> round_number neg a e))"

definition parseFloat :: "jsval \<Rightarrow> js_error + number" where
  "parseFloat v =
     (case to_string v of Inl err \<Rightarrow> Inl err | Inr s \<Rightarrow> Inr (parse_float_string s))"

definition isNaN :: "number \<Rightarrow> bool" where
  "isNaN n = (n = NaN)"

subsection \<open>The date pattern and \<^verbatim>\<open>new Date\<close>\<close>

text \<open>
  The regular expression \<^verbatim>\<open>/^\d{4}-\d{2}-\d{2}$/\<close>, read left to right: each step
  consumes what its part of the pattern matches, and the end anchor asks for nothing left.
\<close>

fun match_digits :: "nat \<Rightarrow> string \<Rightarrow> string option" where
  "match_digits 0 s = Some s"
| "match_digits (Suc n) [] = None"
| "match_digits (Suc n) (c # s) = (if is_digit c then match_digits n s else None)"

fun match_char :: "char \<Rightarrow> string \<Rightarrow> string option" where
  "match_char c [] = None"
| "match_char c (d # s) = (if d = c then Some s else None)"

definition date_regex_test :: "string \<Rightarrow> bool" where
  "date_regex_test s =
     (case match_digits 4 s of None \<Rightarrow> False | Some s1 \<Rightarrow>
      case match_char (CHR ''-'') s1 of None \<Rightarrow> False | Some s2 \<Rightarrow>
      case match_digits 2 s2 of None \<Rightarrow> False | Some s3 \<Rightarrow>
      case match_char (CHR ''-'') s3 of None \<Rightarrow> False | Some s4 \<Rightarrow>
      case match_digits 2 s4 of None \<Rightarrow> False | Some s5 \<Rightarrow> s5 = [])"

text \<open>
  Day numbers as ECMAScript computes them (\<^verbatim>\<open>DayFromYear\<close>, \<^verbatim>\<open>MakeDay\<close>): the day of
  the month is added to the first day of the month, so a day beyond the month's length
  runs into the next month.
\<close>

definition day_from_year :: "int \<Rightarrow> int" where
  "day_from_year y =
     365 * (y - 1970) + (y - 1969) div 4 - (y - 1901) div 100 + (y - 1601) div 400"

definition in_leap_year :: "int \<Rightarrow> bool" where
  "in_leap_year y = (y mod 4 = 0 \<and> (y mod 100 \<noteq> 0 \<or> y mod 400 = 0))"

definition month_start :: "int \<Rightarrow> nat \<Rightarrow> int" where
  "month_start y m =
     [0, 31, 59, 90, 120, 151, 181, 212, 243, 273, 304, 334] ! (m - 1)
       + (if in_leap_year y \<and> 2 < m then 1 else 0)"

definition make_day :: "int \<Rightarrow> nat \<Rightarrow> nat \<Rightarrow> int" where
  "make_day y m d = day_from_year y + month_start y m + int d - 1"

definition ms_per_day :: int where
  "ms_per_day = 86400000"

text \<open>
  \<^verbatim>\<open>Date.parse\<close> on a date-only string \<^verbatim>\<open>YYYY-MM-DD\<close>: UTC midnight of that day, for
  a month from 01 to 12 and a day from 01 to 31 (as Node's engine reads it), and \<open>NaN\<close>
  (here \<open>None\<close>) otherwise. Only strings of this shape pass the date check of
  \<^verbatim>\<open>validateExpense\<close>; the other formats that \<^verbatim>\<open>Date.parse\<close> reads are left out and
  give \<open>None\<close> too.
\<close>

definition date_parse :: "string \<Rightarrow> int option" where
  "date_parse s =
     (if date_regex_test s then
        (let y = nat_of_digits (take 4 s);
             m = nat_of_digits (take 2 (drop 5 s));
             d = nat_of_digits (take 2 (drop 8 s))
         in if 1 \<le> m \<and> m \<le> 12 \<and> 1 \<le> d \<and> d \<le> 31
            then Some (make_day (int y) m d * ms_per_day)
            else None)
      else None)"

text \<open>\<^verbatim>\<open>TimeClip\<close> of a Number: its integral part when within 8.64e15 ms of the epoch.\<close>

definition time_clip :: "number \<Rightarrow> int option" where
  "time_clip n =
     (case n of
        Dec m e \<Rightarrow>
          (let t = (if 0 \<le> e then m * 10 ^ nat e
                    else sgn m * (\<bar>m\<bar> div 10 ^ nat (- e)))
           in if \<bar>t\<bar> \<le> 8640000000000000 then Some t else None)
      | _ \<Rightarrow> None)"

text \<open>
  The time value of \<^verbatim>\<open>new Date(v)\<close>: a string is parsed, an array or object is first
  turned into a string, any other value into a Number. The only values that the GET
  branch hands to \<^verbatim>\<open>new Date\<close> are stored dates, and a date is stored only after its
  conversion to a string has gone through in \<^verbatim>\<open>validateExpense\<close> (lemma
  \<open>stored_dates_convert\<close> below). For an array or object whose conversion throws, which
  is never stored, \<open>None\<close> stands in.
\<close>

definition parse_converted :: "js_error + string \<Rightarrow> int option" where
  "parse_converted r = (case r of Inl err \<Rightarrow> None | Inr s \<Rightarrow> date_parse s)"

fun date_value :: "jsval \<Rightarrow> int option" where
  "date_value (JStr s) = date_parse s"
| "date_value (JArr xs) = parse_converted (to_string (JArr xs))"
| "date_value (JObj kvs) = parse_converted (to_string (JObj kvs))"
| "date_value (JNum n) = time_clip n"
| "date_value (JBool b) = Some (if b then 1 else 0)"
| "date_value JNull = Some 0"
| "date_value JUndefined = None"

subsection \<open>\<^verbatim>\<open>Array.prototype.sort\<close>\<close>

text \<open>
  \<^verbatim>\<open>sort\<close> reorders the array it is called on and returns that same array. ECMAScript
  fixes the outcome when the comparison function is consistent: the elements in the
  order of the comparison, equal ones in their former order. Every stable sort then
  returns the same list, and a straight insertion is taken here. A comparison result of
  \<open>NaN\<close> counts as zero. When the comparison function is not consistent the order is
  left to the engine.
\<close>

fun insert_sorted :: "('a \<Rightarrow> 'a \<Rightarrow> int) \<Rightarrow> 'a \<Rightarrow> 'a list \<Rightarrow> 'a list" where
  "insert_sorted cmp x [] = [x]"
| "insert_sorted cmp x (y # ys) =
     (if cmp x y \<le> 0 then x # y # ys else y # insert_sorted cmp x ys)"

fun array_sort :: "('a \<Rightarrow> 'a \<Rightarrow> int) \<Rightarrow> 'a list \<Rightarrow> 'a list" where
  "array_sort cmp [] = []"
| "array_sort cmp (x # xs) = insert_sorted cmp x (array_sort cmp xs)"

subsection \<open>\<^verbatim>\<open>JSON.stringify\<close>\<close>

text \<open>
  A response body is JSON text; it is kept as the value that the text denotes. A Number
  that is not finite is written \<^verbatim>\<open>null\<close>, as is \<open>undefined\<close> inside an array, and a
  property whose value is \<open>undefined\<close> is left out.
\<close>

fun to_json :: "jsval \<Rightarrow> jsval" where
  "to_json (JNum n) = (case n of Dec m e \<Rightarrow> JNum n | _ \<Rightarrow> JNull)"
| "to_json (JArr xs) = JArr (map (\<lambda>x. if x = JUndefined then JNull else to_json x) xs)"
| "to_json (JObj kvs) =
     JObj (map (\<lambda>kv. (fst kv, to_json (snd kv))) (filter (\<lambda>kv. snd kv \<noteq> JUndefined) kvs))"
| "to_json v = v"

section \<open>The expense store and the handlers\<close>

record expense =
  expense_id :: string
  amount :: number
  description :: string
  category :: string
  date :: jsval

record request =
  req_method :: string
  body :: jsval

record response =
  statusCode :: nat
  headers :: "(string \<times> string) list"
  payload :: "jsval option"

text \<open>The array \<^verbatim>\<open>expenses\<close> as the module creates it.\<close>

definition initial_expenses :: "expense list" where
  "initial_expenses =
     [\<lparr>expense_id = ''e1'', amount = Dec 4599 (- 2), description = ''Groceries at Trader Joe's'',
        category = ''Food'', date = JStr ''2025-11-28''\<rparr>,
      \<lparr>expense_id = ''e2'', amount = Dec 12 1, description = ''Electricity Bill'',
        category = ''Utilities'', date = JStr ''2025-11-30''\<rparr>,
      \<lparr>expense_id = ''e3'', amount = Dec 255 (- 1), description = ''Coffee with client'',
        category = ''Misc'', date = JStr ''2025-12-01''\<rparr>]"

definition expense_obj :: "expense \<Rightarrow> jsval" where
  "expense_obj e =
     JObj [(''id'', JStr (expense_id e)), (''amount'', JNum (amount e)),
           (''description'', JStr (description e)), (''category'', JStr (category e)),
           (''date'', date e)]"

subsection \<open>\<^verbatim>\<open>validateExpense\<close>\<close>

definition amount_message :: string where
  "amount_message = ''Missing or invalid 'amount'. Must be a number.''"

definition description_message :: string where
  "description_message = ''Missing or invalid 'description'. Must be a non-empty string.''"

definition category_message :: string where
  "category_message = ''Missing or invalid 'category'. Must be a non-empty string.''"

definition date_message :: string where
  "date_message = ''Missing or invalid 'date'. Must be in YYYY-MM-DD format.''"

text \<open>
  The four conditions of \<^verbatim>\<open>validateExpense\<close>. In \<^verbatim>\<open>!amount || isNaN(parseFloat(amount))\<close>
  and \<^verbatim>\<open>!date || !/.../.test(date)\<close> the right operand is evaluated for a truthy value
  only, and it throws when the conversion of the value to a string throws. The test
  \<^verbatim>\<open>!v || typeof v !== 'string' || v.trim().length === 0\<close> calls \<^verbatim>\<open>trim\<close> on a string
  only and cannot throw.
\<close>

definition amount_invalid :: "jsval \<Rightarrow> js_error + bool" where
  "amount_invalid v =
     (if \<not> truthy v then Inr True
      else case parseFloat v of Inl err \<Rightarrow> Inl err | Inr n \<Rightarrow> Inr (isNaN n))"

definition text_invalid :: "jsval \<Rightarrow> bool" where
  "text_invalid v =
     (\<not> truthy v \<or> (case v of JStr s \<Rightarrow> length (trim s) = 0 | _ \<Rightarrow> True))"

definition date_invalid :: "jsval \<Rightarrow> js_error + bool" where
  "date_invalid v =
     (if \<not> truthy v then Inr True
      else case to_string v of Inl err \<Rightarrow> Inl err | Inr s \<Rightarrow> Inr (\<not> date_regex_test s))"

text \<open>
  Destructuring \<open>undefined\<close> or \<open>null\<close> throws a \<^verbatim>\<open>TypeError\<close>; any other value is
  read property by property. The list \<open>errors\<close> grows by one message per failed check,
  in the order of the checks; a check that throws ends the function with its error.
\<close>

definition validateExpense :: "jsval \<Rightarrow> js_error + string list" where
  "validateExpense data =
     (if data = JUndefined \<or> data = JNull then Inl TypeError
      else
        (let amount' = get_prop data ''amount'';
             description' = get_prop data ''description'';
             category' = get_prop data ''category'';
             date' = get_prop data ''date'';
             errors = []
         in case amount_invalid amount' of
              Inl err \<Rightarrow> Inl err
            | Inr amount_fails \<Rightarrow>
         (let errors = (if amount_fails then errors @ [amount_message] else errors);
              errors = (if text_invalid description' then errors @ [description_message] else errors);
              errors = (if text_invalid category' then errors @ [category_message] else errors)
          in case date_invalid date' of
               Inl err \<Rightarrow> Inl err
             | Inr date_fails \<Rightarrow>
                 Inr (if date_fails then errors @ [date_message] else errors))))"

subsection \<open>Responses\<close>

definition cors_headers :: "(string \<times> string) list" where
  "cors_headers =
     [(''Access-Control-Allow-Origin'', ''*''),
      (''Access-Control-Allow-Methods'', ''GET, POST, OPTIONS''),
      (''Access-Control-Allow-Headers'', ''Content-Type'')]"

definition json_response :: "nat \<Rightarrow> jsval \<Rightarrow> response" where
  "json_response code v =
     \<lparr>statusCode = code,
      headers = cors_headers @ [(''Content-Type'', ''application/json'')],
      payload = Some (to_json v)\<rparr>"

subsection \<open>GET\<close>

text \<open>
  The comparison function \<^verbatim>\<open>(a, b) => new Date(b.date) - new Date(a.date)\<close>; the
  difference is \<open>NaN\<close> (\<open>None\<close>) when either date is invalid, and \<^verbatim>\<open>sort\<close> reads
  \<open>NaN\<close> as zero.
\<close>

definition date_difference :: "expense \<Rightarrow> expense \<Rightarrow> int option" where
  "date_difference a b =
     (case (date_value (date b), date_value (date a)) of
        (Some tb, Some ta) \<Rightarrow> Some (tb - ta)
      | _ \<Rightarrow> None)"

definition sort_compare :: "expense \<Rightarrow> expense \<Rightarrow> int" where
  "sort_compare a b = (case date_difference a b of None \<Rightarrow> 0 | Some v \<Rightarrow> v)"

text \<open>
  \<^verbatim>\<open>expenses.sort(...)\<close> sorts the module's array itself, so the GET branch returns the
  sorted array both as the data of the response and as the new content of the store.
\<close>

definition get_expenses :: "expense list \<Rightarrow> response \<times> expense list" where
  "get_expenses expenses =
     (let sorted = array_sort sort_compare expenses in
      (json_response 200
         (JObj [(''success'', JBool True), (''data'', JArr (map expense_obj sorted))]),
       sorted))"

subsection \<open>POST\<close>

text \<open>\<^verbatim>\<open>v.trim()\<close>: only a string has it.\<close>

definition call_trim :: "jsval \<Rightarrow> js_error + string" where
  "call_trim v = (case v of JStr s \<Rightarrow> Inr (trim s) | _ \<Rightarrow> Inl TypeError)"

definition validation_failed :: "string list \<Rightarrow> response" where
  "validation_failed validationErrors =
     json_response 400
       (JObj [(''success'', JBool False), (''error'', JStr ''Validation Failed''),
              (''details'', JArr (map JStr validationErrors))])"

text \<open>
  Lines 81 to 99 of \<^verbatim>\<open>expense.js\<close>, the same in \<^verbatim>\<open>expenses.js\<close>: the record is built
  from the body, pushed, and returned with status 201. \<open>now\<close> is the value of
  \<^verbatim>\<open>Date.now()\<close>, an integer that the template literal prints in decimal. The fields
  of the record are evaluated in the order in which they are written, and each of
  \<^verbatim>\<open>parseFloat\<close> and \<^verbatim>\<open>trim\<close> may throw. The result carries the store as it is when
  the block returns or throws.
\<close>

definition create_expense ::
  "nat \<Rightarrow> jsval \<Rightarrow> expense list \<Rightarrow> (js_error + response) \<times> expense list" where
  "create_expense now newExpense expenses =
     (if newExpense = JUndefined \<or> newExpense = JNull then (Inl TypeError, expenses)
      else
        (let expenseId = ''e'' @ digits_of now in
         case parseFloat (get_prop newExpense ''amount'') of
           Inl err \<Rightarrow> (Inl err, expenses)
         | Inr a \<Rightarrow>
         case call_trim (get_prop newExpense ''description'') of
           Inl err \<Rightarrow> (Inl err, expenses)
         | Inr d \<Rightarrow>
         case call_trim (get_prop newExpense ''category'') of
           Inl err \<Rightarrow> (Inl err, expenses)
         | Inr c \<Rightarrow>
             (let expense = \<lparr>expense_id = expenseId,
                             amount = a,
                             description = d, category = c,
                             date = get_prop newExpense ''date''\<rparr>
              in (Inr (json_response 201
                        (JObj [(''success'', JBool True),
                               (''message'', JStr ''Expense added successfully''),
                               (''data'', expense_obj expense)])),
                  expenses @ [expense]))))"

text \<open>\<^verbatim>\<open>newExpense || {}\<close>: a falsy body is replaced by the empty object.\<close>

definition body_or_empty :: "jsval \<Rightarrow> jsval" where
  "body_or_empty newExpense = (if truthy newExpense then newExpense else JObj [])"

text \<open>The \<^verbatim>\<open>try\<close> block of \<^verbatim>\<open>expense.js\<close>.\<close>

definition post_expense ::
  "nat \<Rightarrow> jsval \<Rightarrow> expense list \<Rightarrow> (js_error + response) \<times> expense list" where
  "post_expense now newExpense expenses =
     (case validateExpense (body_or_empty newExpense) of
        Inl err \<Rightarrow> (Inl err, expenses)
      | Inr validationErrors \<Rightarrow>
          if length validationErrors > 0
          then (Inr (validation_failed validationErrors), expenses)
          else create_expense now newExpense expenses)"

text \<open>
  The \<^verbatim>\<open>try\<close> block of \<^verbatim>\<open>expenses.js\<close>: the branch \<^verbatim>\<open>if (!newExpense) { }\<close> is
  empty, and the body goes to \<^verbatim>\<open>validateExpense\<close> as it is.
\<close>

definition post_expenses ::
  "nat \<Rightarrow> jsval \<Rightarrow> expense list \<Rightarrow> (js_error + response) \<times> expense list" where
  "post_expenses now newExpense expenses =
     (case validateExpense newExpense of
        Inl err \<Rightarrow> (Inl err, expenses)
      | Inr validationErrors \<Rightarrow>
          if length validationErrors > 0
          then (Inr (validation_failed validationErrors), expenses)
          else create_expense now newExpense expenses)"

subsection \<open>The exported function\<close>

text \<open>
  Both files export the same dispatch on \<^verbatim>\<open>req.method\<close> around their own \<^verbatim>\<open>try\<close> block;
  \<^verbatim>\<open>catch\<close> answers 500 whatever was thrown (the line it writes to the console is left
  out).
\<close>

definition internal_error :: response where
  "internal_error =
     json_response 500
       (JObj [(''success'', JBool False),
              (''error'', JStr ''Internal Server Error during expense creation'')])"

definition dispatch ::
  "(nat \<Rightarrow> jsval \<Rightarrow> expense list \<Rightarrow> (js_error + response) \<times> expense list) \<Rightarrow>
   nat \<Rightarrow> request \<Rightarrow> expense list \<Rightarrow> response \<times> expense list" where
  "dispatch post now req expenses =
     (if req_method req = ''OPTIONS''
      then (\<lparr>statusCode = 204, headers = cors_headers, payload = None\<rparr>, expenses)
      else if req_method req = ''GET'' then get_expenses expenses
      else if req_method req = ''POST'' then
        (case post now (body req) expenses of
           (Inr res, expenses') \<Rightarrow> (res, expenses')
         | (Inl err, expenses') \<Rightarrow> (internal_error, expenses'))
      else
        (json_response 405
           (JObj [(''success'', JBool False),
                  (''error'', JStr (''Method '' @ req_method req @ '' Not Allowed''))]),
         expenses))"

definition expense_handler :: "nat \<Rightarrow> request \<Rightarrow> expense list \<Rightarrow> response \<times> expense list" where
  "expense_handler = dispatch post_expense"

definition expenses_handler :: "nat \<Rightarrow> request \<Rightarrow> expense list \<Rightarrow> response \<times> expense list" where
  "expenses_handler = dispatch post_expenses"

section \<open>Notions used in the statements\<close>

text \<open>What a client reads under \<^verbatim>\<open>data\<close> in a response.\<close>

definition response_data :: "response \<Rightarrow> jsval" where
  "response_data res = (case payload res of None \<Rightarrow> JUndefined | Some v \<Rightarrow> get_prop v ''data'')"

definition response_details :: "response \<Rightarrow> jsval" where
  "response_details res = (case payload res of None \<Rightarrow> JUndefined | Some v \<Rightarrow> get_prop v ''details'')"

definition response_error :: "response \<Rightarrow> jsval" where
  "response_error res = (case payload res of None \<Rightarrow> JUndefined | Some v \<Rightarrow> get_prop v ''error'')"

definition is_finite :: "number \<Rightarrow> bool" where
  "is_finite n = (case n of Dec m e \<Rightarrow> True | _ \<Rightarrow> False)"

text \<open>
  The order of two records by date: both dates have a time value and the first is not
  earlier than the second.
\<close>

definition has_time :: "expense \<Rightarrow> bool" where
  "has_time e = (date_value (date e) \<noteq> None)"

definition date_ge :: "expense \<Rightarrow> expense \<Rightarrow> bool" where
  "date_ge a b =
     (case (date_value (date a), date_value (date b)) of
        (Some ta, Some tb) \<Rightarrow> tb \<le> ta
      | _ \<Rightarrow> False)"

definition date_passes :: "expense \<Rightarrow> bool" where
  "date_passes e = (date_invalid (date e) = Inr False)"

text \<open>
  The date pattern in the words of the specification: four digits, a hyphen, two digits,
  a hyphen, two digits, and nothing else.
\<close>

definition four_two_two :: "string \<Rightarrow> bool" where
  "four_two_two s =
     (length s = 10 \<and> list_all is_digit (take 4 s) \<and> s ! 4 = CHR ''-''
      \<and> list_all is_digit (take 2 (drop 5 s)) \<and> s ! 7 = CHR ''-''
      \<and> list_all is_digit (drop 8 s))"

text \<open>
  A value whose conversion to a string goes through, one that \<^verbatim>\<open>parseFloat\<close> reads as
  a number, and one whose conversion has the date pattern.
\<close>

definition convertible :: "jsval \<Rightarrow> bool" where
  "convertible v = (case to_string v of Inl err \<Rightarrow> False | Inr s \<Rightarrow> True)"

definition parseable :: "jsval \<Rightarrow> bool" where
  "parseable v = (case parseFloat v of Inl err \<Rightarrow> False | Inr n \<Rightarrow> n \<noteq> NaN)"

definition has_date_pattern :: "jsval \<Rightarrow> bool" where
  "has_date_pattern v = (case to_string v of Inl err \<Rightarrow> False | Inr s \<Rightarrow> four_two_two s)"

text \<open>
  The four fields of a payload, and when the specification calls one missing or invalid:
  an amount that is missing, falsy or not parseable; a description or category that is
  missing, not a string or empty after trimming; a date that is missing or not of the
  pattern.
\<close>

datatype field = Amount | Description | Category | Date

fun field_name :: "field \<Rightarrow> string" where
  "field_name Amount = ''amount''"
| "field_name Description = ''description''"
| "field_name Category = ''category''"
| "field_name Date = ''date''"

fun field_message :: "field \<Rightarrow> string" where
  "field_message Amount = amount_message"
| "field_message Description = description_message"
| "field_message Category = category_message"
| "field_message Date = date_message"

definition blank_text :: "jsval \<Rightarrow> bool" where
  "blank_text v = (case v of JStr s \<Rightarrow> trim s = [] | _ \<Rightarrow> True)"

fun field_rejected :: "field \<Rightarrow> jsval \<Rightarrow> bool" where
  "field_rejected Amount v = (v = JUndefined \<or> \<not> truthy v \<or> \<not> parseable v)"
| "field_rejected Description v = (v = JUndefined \<or> blank_text v)"
| "field_rejected Category v = (v = JUndefined \<or> blank_text v)"
| "field_rejected Date v = (v = JUndefined \<or> \<not> has_date_pattern v)"

definition rejected_fields :: "jsval \<Rightarrow> field list" where
  "rejected_fields data =
     filter (\<lambda>f. field_rejected f (get_prop data (field_name f)))
       [Amount, Description, Category, Date]"

text \<open>
  The record that a valid payload gives rise to, with \<open>a\<close> what \<^verbatim>\<open>parseFloat\<close> makes of
  the amount of the payload, \<open>d\<close> and \<open>c\<close> its description and category strings, and
  the response that announces it.
\<close>

definition expense_from :: "nat \<Rightarrow> jsval \<Rightarrow> number \<Rightarrow> string \<Rightarrow> string \<Rightarrow> expense" where
  "expense_from now b a d c =
     \<lparr>expense_id = ''e'' @ digits_of now, amount = a,
      description = trim d, category = trim c, date = get_prop b ''date''\<rparr>"

definition created_response :: "expense \<Rightarrow> response" where
  "created_response e =
     json_response 201
       (JObj [(''success'', JBool True), (''message'', JStr ''Expense added successfully''),
              (''data'', expense_obj e)])"

text \<open>What the invariant asks of a stored record.\<close>

definition stored_valid :: "expense \<Rightarrow> bool" where
  "stored_valid e =
     (amount e \<noteq> NaN
      \<and> description e \<noteq> [] \<and> trim (description e) = description e
      \<and> category e \<noteq> [] \<and> trim (category e) = category e
      \<and> date e \<noteq> JUndefined \<and> has_date_pattern (date e)
      \<and> take 1 (expense_id e) = ''e'')"

text \<open>
  The store after a sequence of invocations, each with its clock reading and request,
  starting from a given store.
\<close>

fun run ::
  "(nat \<Rightarrow> request \<Rightarrow> expense list \<Rightarrow> response \<times> expense list) \<Rightarrow>
   (nat \<times> request) list \<Rightarrow> expense list \<Rightarrow> expense list" where
  "run h [] xs = xs"
| "run h ((now, req) # rs) xs = run h rs (snd (h now req xs))"

subsection \<open>Sample requests\<close>

definition get_request :: request where
  "get_request = \<lparr>req_method = ''GET'', body = JUndefined\<rparr>"

definition post_request :: "jsval \<Rightarrow> request" where
  "post_request b = \<lparr>req_method = ''POST'', body = b\<rparr>"

definition lunch_payload :: jsval where
  "lunch_payload =
     JObj [(''amount'', JNum (Dec 5 1)), (''description'', JStr ''Lunch''),
           (''category'', JStr ''Food''), (''date'', JStr ''2025-12-05'')]"

definition prefix_payload :: jsval where
  "prefix_payload =
     JObj [(''amount'', JStr ''12abc''), (''description'', JStr ''Lunch''),
           (''category'', JStr ''Food''), (''date'', JStr ''2025-12-05'')]"

definition infinity_payload :: jsval where
  "infinity_payload =
     JObj [(''amount'', JStr ''Infinity''), (''description'', JStr ''Lunch''),
           (''category'', JStr ''Food''), (''date'', JStr ''2025-12-05'')]"

definition refund_payload :: jsval where
  "refund_payload =
     JObj [(''amount'', JNum (Dec (- 125) (- 1))), (''description'', JStr '' Refund ''),
           (''category'', JStr ''Misc''), (''date'', JStr ''2025-02-30'')]"

definition untitled_payload :: jsval where
  "untitled_payload =
     JObj [(''amount'', JNum (Dec (- 125) (- 1))), (''description'', JStr '' ''),
           (''category'', JStr ''Misc''), (''date'', JStr ''2025-02-30'')]"

definition zero_payload :: jsval where
  "zero_payload =
     JObj [(''amount'', JStr ''0''), (''description'', JStr ''Lunch''),
           (''category'', JStr ''Food''), (''date'', JStr ''2025-12-05'')]"

text \<open>The body \<^verbatim>\<open>{"amount": {"toString": 1}, "description": "Lunch", ...}\<close>.\<close>

definition unconvertible_payload :: jsval where
  "unconvertible_payload =
     JObj [(''amount'', JObj [(''toString'', JNum (Dec 1 0))]), (''description'', JStr ''Lunch''),
           (''category'', JStr ''Food''), (''date'', JStr ''2025-12-05'')]"

definition three_errors_payload :: jsval where
  "three_errors_payload =
     JObj [(''amount'', JStr ''abc''), (''description'', JStr ''  ''),
           (''category'', JStr ''Food''), (''date'', JStr ''2025-1-5'')]"

definition invalid_date_payload :: jsval where
  "invalid_date_payload =
     JObj [(''amount'', JNum (Dec 1 1)), (''description'', JStr ''Concert''),
           (''category'', JStr ''Fun''), (''date'', JStr ''2025-13-40'')]"

definition later_payload :: jsval where
  "later_payload =
     JObj [(''amount'', JNum (Dec 2 1)), (''description'', JStr ''Gifts''),
           (''category'', JStr ''Misc''), (''date'', JStr ''2025-12-25'')]"

text \<open>
  A store reached from the initial one: a record dated \<^verbatim>\<open>2025-13-40\<close> is posted, the
  list is read, and a record dated \<^verbatim>\<open>2025-12-25\<close> is posted.
\<close>

definition unsorted_store :: "expense list" where
  "unsorted_store =
     run expense_handler
       [(1001, post_request invalid_date_payload), (1002, get_request),
        (1003, post_request later_payload)]
       initial_expenses"

section \<open>Properties of the handlers\<close>

subsection \<open>The date pattern\<close>

lemma match_digits_eq:
  "match_digits n s =
     (if n \<le> length s \<and> list_all is_digit (take n s) then Some (drop n s) else None)"
  by (induction n s rule: match_digits.induct) auto

lemma match_char_eq:
  "match_char c s = (if s \<noteq> [] \<and> hd s = c then Some (tl s) else None)"
  by (cases s) auto

lemma date_regex_test_eq: "date_regex_test s = four_two_two s"
proof (cases "length s = 10")
  case True
  then obtain a b c d e f g h i j where s: "s = [a, b, c, d, e, f, g, h, i, j]"
    by (auto simp: length_Suc_conv eval_nat_numeral)
  show ?thesis
    by (simp add: s date_regex_test_def four_two_two_def eval_nat_numeral)
next
  case False
  then show ?thesis
    by (auto simp: date_regex_test_def four_two_two_def match_digits_eq match_char_eq
        drop_Suc tl_drop split: option.splits if_splits)
qed

subsection \<open>Falsy values\<close>

lemma falsy_cases:
  "\<not> truthy v \<longleftrightarrow>
     v = JUndefined \<or> v = JNull \<or> v = JBool False \<or> v = JNum NaN
     \<or> (\<exists>e. v = JNum (Dec 0 e)) \<or> v = JStr []"
  by (cases v) (auto split: number.splits)

lemma only_TypeError: "(err :: js_error) = TypeError"
  by (cases err)

lemma parseFloat_undefined: "parseFloat JUndefined = Inr NaN"
  by code_simp

lemma parseFloat_null: "parseFloat JNull = Inr NaN"
  by code_simp

lemma parseFloat_false: "parseFloat (JBool False) = Inr NaN"
  by code_simp

lemma parseFloat_nan: "parseFloat (JNum NaN) = Inr NaN"
  by code_simp

lemma parseFloat_empty: "parseFloat (JStr []) = Inr NaN"
  by code_simp

lemma parse_float_zero: "parse_float_string ''0'' = Dec 0 0"
  by code_simp

lemma parseFloat_zero: "parseFloat (JNum (Dec 0 e)) = Inr (Dec 0 0)"
  by (simp add: parseFloat_def number_to_string_def parse_float_zero)

lemma parseFloat_string_zero: "parseFloat (JStr ''0'') = Inr (Dec 0 0)"
  by code_simp

lemma falsy_parse:
  "\<not> truthy v \<Longrightarrow> parseFloat v = Inr NaN \<or> parseFloat v = Inr (Dec 0 0)"
  by (auto simp: falsy_cases parseFloat_undefined parseFloat_null parseFloat_false
      parseFloat_nan parseFloat_empty parseFloat_zero)

lemma falsy_convertible: "\<not> truthy v \<Longrightarrow> convertible v"
  by (auto simp: falsy_cases convertible_def)

lemma falsy_not_date: "\<not> truthy v \<Longrightarrow> \<not> has_date_pattern v"
  by (auto simp: falsy_cases has_date_pattern_def four_two_two_def number_to_string_def)

lemma trim_Nil: "trim [] = []"
  by (simp add: trim_def)

lemma falsy_blank: "\<not> truthy v \<Longrightarrow> blank_text v"
  by (auto simp: falsy_cases blank_text_def trim_Nil)

lemma falsy_body_props:
  "\<not> truthy b \<Longrightarrow> get_prop b k = JUndefined"
  by (cases b) auto

subsection \<open>The checks of the code and the conditions of the specification\<close>

text \<open>
  Where the conversion of the value goes through, the amount and date checks of the code
  decide what the specification says; where it throws, they throw.
\<close>

lemma amount_invalid_eq:
  "amount_invalid v = (if convertible v then Inr (field_rejected Amount v) else Inl TypeError)"
proof (cases "truthy v")
  case False
  then show ?thesis by (simp add: amount_invalid_def falsy_convertible)
next
  case True
  then have u: "v \<noteq> JUndefined" by auto
  show ?thesis
  proof (cases "to_string v")
    case (Inl err)
    then show ?thesis
      using True by (simp add: amount_invalid_def parseFloat_def convertible_def only_TypeError)
  next
    case (Inr s)
    then show ?thesis
      using True u
      by (simp add: amount_invalid_def parseFloat_def convertible_def parseable_def isNaN_def)
  qed
qed

lemma text_invalid_eq: "text_invalid v = (v = JUndefined \<or> blank_text v)"
  using falsy_blank [of v] by (auto simp: text_invalid_def blank_text_def split: jsval.splits)

lemma date_invalid_eq:
  "date_invalid v = (if convertible v then Inr (field_rejected Date v) else Inl TypeError)"
proof (cases "truthy v")
  case False
  then show ?thesis
    using falsy_not_date [of v] by (simp add: date_invalid_def falsy_convertible)
next
  case True
  then have u: "v \<noteq> JUndefined" by auto
  show ?thesis
  proof (cases "to_string v")
    case (Inl err)
    then show ?thesis
      using True by (simp add: date_invalid_def convertible_def only_TypeError)
  next
    case (Inr s)
    then show ?thesis
      using True u
      by (simp add: date_invalid_def convertible_def has_date_pattern_def date_regex_test_eq)
  qed
qed

subsection \<open>Trimming and digits\<close>

lemma trim_no_leading_ws: "dropWhile is_ws (trim s) = trim s"
proof (cases "trim s")
  case Nil
  then show ?thesis by simp
next
  case (Cons a r)
  define t where "t = dropWhile is_ws s"
  have "rev t = takeWhile is_ws (rev t) @ dropWhile is_ws (rev t)" by simp
  then have "t = rev (dropWhile is_ws (rev t)) @ rev (takeWhile is_ws (rev t))"
    by (metis rev_append rev_rev_ident)
  then have t: "t = trim s @ rev (takeWhile is_ws (rev t))"
    by (simp add: trim_def t_def)
  then have "t \<noteq> []" and "hd t = a" using Cons by (metis append_is_Nil_conv list.distinct(1), metis hd_append2 list.sel(1) list.distinct(1))
  then have "\<not> is_ws a" unfolding t_def using hd_dropWhile by metis
  then show ?thesis using Cons by simp
qed

lemma trim_idem: "trim (trim s) = trim s"
proof -
  have "rev (trim s) = dropWhile is_ws (rev (dropWhile is_ws s))"
    by (simp add: trim_def)
  then have "dropWhile is_ws (rev (trim s)) = rev (trim s)"
    by (simp add: dropWhile_idem)
  then show ?thesis
    by (simp add: trim_def [of "trim s"] trim_no_leading_ws)
qed

lemma digit_val_char: "n < 10 \<Longrightarrow> digit_val (digit_char n) = n"
proof -
  assume "n < 10"
  then have "n \<in> {0, 1, 2, 3, 4, 5, 6, 7, 8, 9}" by auto
  then show ?thesis by (auto simp: digit_val_def digit_char_def)
qed

lemma nat_of_digits_snoc: "nat_of_digits (ds @ [c]) = 10 * nat_of_digits ds + digit_val c"
  by (simp add: nat_of_digits_def)

text \<open>The digits printed for the clock reading denote it.\<close>

lemma nat_of_digits_of: "nat_of_digits (digits_of n) = n"
proof (induction n rule: digits_of.induct)
  case (1 n)
  show ?case
  proof (cases "n < 10")
    case True
    then show ?thesis
      by (simp add: digits_of.simps [of n] nat_of_digits_def digit_val_char)
  next
    case False
    then show ?thesis
      using 1 by (simp add: digits_of.simps [of n] nat_of_digits_snoc digit_val_char)
  qed
qed

subsection \<open>\<^verbatim>\<open>validateExpense\<close> collects one message per rejected field\<close>

lemma validateExpense_eq:
  "validateExpense data =
     (if data = JUndefined \<or> data = JNull then Inl TypeError
      else if \<not> convertible (get_prop data ''amount'') \<or> \<not> convertible (get_prop data ''date'')
      then Inl TypeError
      else Inr ((if field_rejected Amount (get_prop data ''amount'') then [amount_message] else [])
              @ (if text_invalid (get_prop data ''description'') then [description_message] else [])
              @ (if text_invalid (get_prop data ''category'') then [category_message] else [])
              @ (if field_rejected Date (get_prop data ''date'') then [date_message] else [])))"
  by (simp add: validateExpense_def Let_def amount_invalid_eq date_invalid_eq)

lemma messages_distinct:
  "amount_message \<noteq> description_message" "amount_message \<noteq> category_message"
  "amount_message \<noteq> date_message" "description_message \<noteq> category_message"
  "description_message \<noteq> date_message" "category_message \<noteq> date_message"
  by (simp_all add: amount_message_def description_message_def category_message_def
      date_message_def)

lemma field_message_inj: "field_message f = field_message g \<longleftrightarrow> f = g"
  using messages_distinct by (cases f; cases g) auto

lemma validateExpense_rejected:
  "data \<noteq> JUndefined \<Longrightarrow> data \<noteq> JNull \<Longrightarrow>
   convertible (get_prop data ''amount'') \<Longrightarrow> convertible (get_prop data ''date'') \<Longrightarrow>
     validateExpense data = Inr (map field_message (rejected_fields data))"
  by (simp add: validateExpense_eq rejected_fields_def text_invalid_eq)

lemma validateExpense_throws:
  "\<not> convertible (get_prop data ''amount'') \<or> \<not> convertible (get_prop data ''date'') \<Longrightarrow>
     validateExpense data = Inl TypeError"
  by (simp add: validateExpense_eq)

lemma validateExpense_Inr:
  assumes "validateExpense data = Inr errors"
  shows "errors = map field_message (rejected_fields data)"
    and "data \<noteq> JUndefined" and "data \<noteq> JNull"
    and "convertible (get_prop data ''amount'')" and "convertible (get_prop data ''date'')"
proof -
  show d: "data \<noteq> JUndefined" "data \<noteq> JNull"
    using assms by (auto simp: validateExpense_eq)
  show c: "convertible (get_prop data ''amount'')" "convertible (get_prop data ''date'')"
    using assms d by (auto simp: validateExpense_eq split: if_splits)
  show "errors = map field_message (rejected_fields data)"
    using assms d c by (simp add: validateExpense_rejected)
qed

lemma distinct_rejected_fields: "distinct (rejected_fields data)"
  by (simp add: rejected_fields_def)

lemma set_rejected_fields:
  "set (rejected_fields data) = {f. field_rejected f (get_prop data (field_name f))}"
proof -
  have "f \<in> set [Amount, Description, Category, Date]" for f by (cases f) simp_all
  then show ?thesis unfolding rejected_fields_def set_filter by blast
qed

lemma message_in_errors:
  "validateExpense data = Inr errors \<Longrightarrow>
     field_message f \<in> set errors \<longleftrightarrow> field_rejected f (get_prop data (field_name f))"
  by (auto simp: set_rejected_fields field_message_inj dest!: validateExpense_Inr(1))

lemma valid_body_fields:
  assumes "validateExpense data = Inr []"
  shows "data \<noteq> JUndefined" "data \<noteq> JNull" "truthy data"
    "\<not> field_rejected f (get_prop data (field_name f))"
proof -
  show u: "data \<noteq> JUndefined" and n: "data \<noteq> JNull"
    using validateExpense_Inr(2,3) [OF assms] by simp_all
  show r: "\<not> field_rejected f (get_prop data (field_name f))"
    using message_in_errors [OF assms, of f] by simp
  have "\<not> field_rejected Description (get_prop data (field_name Description))"
    using message_in_errors [OF assms, of Description] by simp
  then have "get_prop data ''description'' \<noteq> JUndefined" by simp
  then show "truthy data" by (cases data) auto
qed

lemma valid_body_amount:
  assumes "validateExpense data = Inr []"
  shows "\<exists>a. parseFloat (get_prop data ''amount'') = Inr a \<and> a \<noteq> NaN"
proof -
  have "\<not> field_rejected Amount (get_prop data (field_name Amount))"
    using valid_body_fields(4) [OF assms] .
  then have "parseable (get_prop data ''amount'')" by simp
  then show ?thesis by (auto simp: parseable_def split: sum.splits)
qed

lemma not_blank_text: "\<not> blank_text v \<Longrightarrow> \<exists>s. v = JStr s \<and> trim s \<noteq> []"
  by (cases v) (auto simp: blank_text_def)

lemma rejected_body_or_empty:
  "body_or_empty b \<noteq> JUndefined" "body_or_empty b \<noteq> JNull"
  by (cases b; simp add: body_or_empty_def)+

lemma rejected_fields_empty_object:
  "rejected_fields (JObj []) = [Amount, Description, Category, Date]"
  by (simp add: rejected_fields_def blank_text_def)

lemma rejected_fields_falsy:
  "\<not> truthy b \<Longrightarrow> rejected_fields b = [Amount, Description, Category, Date]"
  by (simp add: rejected_fields_def blank_text_def falsy_body_props)

lemma validateExpense_empty_object:
  "validateExpense (JObj []) =
     Inr [amount_message, description_message, category_message, date_message]"
  by (simp add: validateExpense_rejected rejected_fields_empty_object convertible_def)

lemma validateExpense_falsy:
  assumes "\<not> truthy b" and "b \<noteq> JUndefined" and "b \<noteq> JNull"
  shows "validateExpense b =
     Inr [amount_message, description_message, category_message, date_message]"
  using assms
  by (simp add: validateExpense_rejected rejected_fields_falsy falsy_body_props convertible_def)

lemma empty_object_rejected: "validateExpense (JObj []) \<noteq> Inr []"
  by (simp add: validateExpense_empty_object)

lemma validate_body_or_empty:
  "validateExpense (body_or_empty b) = Inr [] \<longleftrightarrow> validateExpense b = Inr []"
proof (cases "truthy b")
  case True
  then show ?thesis by (simp add: body_or_empty_def)
next
  case False
  have "validateExpense b \<noteq> Inr []"
  proof (cases "b = JUndefined \<or> b = JNull")
    case True
    then show ?thesis by (auto simp: validateExpense_eq)
  next
    case present: False
    then show ?thesis using False by (simp add: validateExpense_falsy)
  qed
  then show ?thesis
    using False empty_object_rejected by (simp add: body_or_empty_def)
qed

subsection \<open>The branches of the exported function\<close>

lemma dispatch_post:
  "req_method req = ''POST'' \<Longrightarrow>
     dispatch post now req xs =
       (case post now (body req) xs of
          (Inr res, xs') \<Rightarrow> (res, xs')
        | (Inl err, xs') \<Rightarrow> (internal_error, xs'))"
  by (simp add: dispatch_def)

lemma dispatch_get: "req_method req = ''GET'' \<Longrightarrow> dispatch post now req xs = get_expenses xs"
  by (simp add: dispatch_def)

lemma statusCode_json_response: "statusCode (json_response code v) = code"
  by (simp add: json_response_def)

lemma get_expenses_eq:
  "get_expenses xs =
     (json_response 200
        (JObj [(''success'', JBool True),
               (''data'', JArr (map expense_obj (array_sort sort_compare xs)))]),
      array_sort sort_compare xs)"
  by (simp add: get_expenses_def Let_def)

lemma get_request_method: "req_method get_request = ''GET''"
  by (simp add: get_request_def)

lemma post_request_method: "req_method (post_request b) = ''POST''"
  by (simp add: post_request_def)

lemma post_request_body: "body (post_request b) = b"
  by (simp add: post_request_def)

subsection \<open>A payload that passes validation\<close>

lemma create_expense_valid:
  assumes "validateExpense b = Inr []"
  shows "\<exists>a d c. parseFloat (get_prop b ''amount'') = Inr a \<and> a \<noteq> NaN
           \<and> get_prop b ''description'' = JStr d \<and> get_prop b ''category'' = JStr c
           \<and> trim d \<noteq> [] \<and> trim c \<noteq> []
           \<and> create_expense now b xs =
               (Inr (created_response (expense_from now b a d c)),
                xs @ [expense_from now b a d c])"
proof -
  obtain a where a: "parseFloat (get_prop b ''amount'') = Inr a" "a \<noteq> NaN"
    using valid_body_amount [OF assms] by blast
  have "\<not> blank_text (get_prop b ''description'')"
    using valid_body_fields(4) [OF assms, of Description] by simp
  then obtain d where d: "get_prop b ''description'' = JStr d" "trim d \<noteq> []"
    using not_blank_text by blast
  have "\<not> blank_text (get_prop b ''category'')"
    using valid_body_fields(4) [OF assms, of Category] by simp
  then obtain c where c: "get_prop b ''category'' = JStr c" "trim c \<noteq> []"
    using not_blank_text by blast
  have n: "b \<noteq> JUndefined" "b \<noteq> JNull"
    using valid_body_fields(1,2) [OF assms] by simp_all
  have "create_expense now b xs =
          (Inr (created_response (expense_from now b a d c)), xs @ [expense_from now b a d c])"
    unfolding create_expense_def call_trim_def created_response_def expense_from_def Let_def
    using n a(1) d(1) c(1) by simp
  then show ?thesis using a d c by blast
qed

lemma post_expense_valid:
  "validateExpense b = Inr [] \<Longrightarrow> post_expense now b xs = create_expense now b xs"
  by (simp add: post_expense_def body_or_empty_def valid_body_fields(3))

lemma post_expenses_valid:
  "validateExpense b = Inr [] \<Longrightarrow> post_expenses now b xs = create_expense now b xs"
  by (simp add: post_expenses_def)

lemma response_data_created:
  "date e \<noteq> JUndefined \<Longrightarrow> response_data (created_response e) =
     JObj [(''id'', JStr (expense_id e)),
           (''amount'', if is_finite (amount e) then JNum (amount e) else JNull),
           (''description'', JStr (description e)), (''category'', JStr (category e)),
           (''date'', to_json (date e))]"
  by (simp add: response_data_def created_response_def json_response_def expense_obj_def
      is_finite_def split: number.splits)

lemma valid_post_handlers:
  assumes "req_method req = ''POST''" and "validateExpense (body req) = Inr []"
  shows "\<exists>a d c. parseFloat (get_prop (body req) ''amount'') = Inr a
           \<and> get_prop (body req) ''description'' = JStr d
           \<and> get_prop (body req) ''category'' = JStr c
           \<and> expense_handler now req xs =
               (created_response (expense_from now (body req) a d c),
                xs @ [expense_from now (body req) a d c])
           \<and> expenses_handler now req xs =
               (created_response (expense_from now (body req) a d c),
                xs @ [expense_from now (body req) a d c])"
proof -
  obtain a d c where dc: "parseFloat (get_prop (body req) ''amount'') = Inr a"
      "get_prop (body req) ''description'' = JStr d"
      "get_prop (body req) ''category'' = JStr c"
    and cr: "create_expense now (body req) xs =
      (Inr (created_response (expense_from now (body req) a d c)),
       xs @ [expense_from now (body req) a d c])"
    using create_expense_valid [OF assms(2), of now xs] by blast
  have h1: "expense_handler now req xs =
               (created_response (expense_from now (body req) a d c),
                xs @ [expense_from now (body req) a d c])"
    by (simp add: expense_handler_def dispatch_post [OF assms(1)]
        post_expense_valid [OF assms(2)] cr)
  have h2: "expenses_handler now req xs =
               (created_response (expense_from now (body req) a d c),
                xs @ [expense_from now (body req) a d c])"
    by (simp add: expenses_handler_def dispatch_post [OF assms(1)]
        post_expenses_valid [OF assms(2)] cr)
  show ?thesis using dc h1 h2 by blast
qed

subsection \<open>Sorting\<close>

lemma mset_insert_sorted: "mset (insert_sorted cmp x ys) = add_mset x (mset ys)"
  by (induction ys) auto

lemma set_insert_sorted: "set (insert_sorted cmp x ys) = insert x (set ys)"
  by (induction ys) auto

lemma mset_array_sort: "mset (array_sort cmp xs) = mset xs"
  by (induction xs) (auto simp: mset_insert_sorted)

lemma set_array_sort: "set (array_sort cmp xs) = set xs"
  using mset_array_sort [of cmp xs] by (metis set_mset_mset)

lemma length_array_sort: "length (array_sort cmp xs) = length xs"
  using mset_array_sort [of cmp xs] by (metis size_mset)

lemma sort_compare_le:
  "has_time a \<Longrightarrow> has_time b \<Longrightarrow> sort_compare a b \<le> 0 \<longleftrightarrow> date_ge a b"
  by (auto simp: has_time_def sort_compare_def date_difference_def date_ge_def)

lemma date_ge_total: "has_time a \<Longrightarrow> has_time b \<Longrightarrow> \<not> date_ge a b \<Longrightarrow> date_ge b a"
  by (auto simp: has_time_def date_ge_def)

lemma date_ge_trans: "date_ge a b \<Longrightarrow> date_ge b c \<Longrightarrow> date_ge a c"
  by (auto simp: date_ge_def split: option.splits)

lemma sorted_insert_sorted:
  assumes "sorted_wrt date_ge ys" and "has_time x" and "\<forall>y\<in>set ys. has_time y"
  shows "sorted_wrt date_ge (insert_sorted sort_compare x ys)"
  using assms
proof (induction ys)
  case Nil
  then show ?case by simp
next
  case (Cons y ys)
  show ?case
  proof (cases "sort_compare x y \<le> 0")
    case True
    then have xy: "date_ge x y" using Cons.prems by (simp add: sort_compare_le)
    have "\<forall>z\<in>set ys. date_ge x z"
      using xy Cons.prems(1) by (auto intro: date_ge_trans)
    then show ?thesis using True xy Cons.prems(1) by simp
  next
    case False
    then have yx: "date_ge y x"
      using Cons.prems by (auto simp: sort_compare_le dest: date_ge_total)
    have "sorted_wrt date_ge (insert_sorted sort_compare x ys)"
      using Cons by simp
    moreover have "\<forall>z\<in>set (insert_sorted sort_compare x ys). date_ge y z"
    proof
      fix z assume "z \<in> set (insert_sorted sort_compare x ys)"
      then have "z = x \<or> z \<in> set ys" by (simp add: set_insert_sorted)
      then show "date_ge y z" using yx Cons.prems(1) by auto
    qed
    ultimately show ?thesis using False by simp
  qed
qed

lemma sorted_array_sort:
  "\<forall>e\<in>set xs. has_time e \<Longrightarrow> sorted_wrt date_ge (array_sort sort_compare xs)"
  by (induction xs) (auto simp: sorted_insert_sorted set_array_sort)

text \<open>
  When every date has a time value the comparison function is consistent, and the
  insertion returns what the library's stable sort on the negated time values returns.
\<close>

lemma insert_sorted_insort_key:
  assumes "has_time x" and "\<forall>y\<in>set ys. has_time y"
  shows "insert_sorted sort_compare x ys = insort_key (\<lambda>e. - the (date_value (date e))) x ys"
  using assms
  by (induction ys) (auto simp: has_time_def sort_compare_def date_difference_def)

lemma array_sort_sort_key:
  "\<forall>e\<in>set xs. has_time e \<Longrightarrow>
     array_sort sort_compare xs = sort_key (\<lambda>e. - the (date_value (date e))) xs"
  by (induction xs) (auto simp: insert_sorted_insort_key set_array_sort)

subsection \<open>POST either appends one record or leaves the store alone\<close>

lemma create_expense_cases:
  "(\<exists>res e. create_expense now b xs = (Inr res, xs @ [e]) \<and> statusCode res = 201)
   \<or> (\<exists>err. create_expense now b xs = (Inl err, xs))"
  by (auto simp: create_expense_def json_response_def Let_def split: sum.splits)

lemma post_expense_cases:
  "(\<exists>res e. post_expense now b xs = (Inr res, xs @ [e]) \<and> statusCode res = 201)
   \<or> (\<exists>res. post_expense now b xs = (Inr res, xs) \<and> statusCode res = 400)
   \<or> (\<exists>err. post_expense now b xs = (Inl err, xs))"
  using create_expense_cases [of now b xs]
  by (auto simp: post_expense_def validation_failed_def json_response_def split: sum.splits)

lemma post_expenses_cases:
  "(\<exists>res e. post_expenses now b xs = (Inr res, xs @ [e]) \<and> statusCode res = 201)
   \<or> (\<exists>res. post_expenses now b xs = (Inr res, xs) \<and> statusCode res = 400)
   \<or> (\<exists>err. post_expenses now b xs = (Inl err, xs))"
  using create_expense_cases [of now b xs]
  by (auto simp: post_expenses_def validation_failed_def json_response_def split: sum.splits)

lemma dispatch_post_atomic:
  assumes "req_method req = ''POST''"
    and "(\<exists>res e. post now (body req) xs = (Inr res, xs @ [e]) \<and> statusCode res = 201)
   \<or> (\<exists>res. post now (body req) xs = (Inr res, xs) \<and> statusCode res = 400)
   \<or> (\<exists>err. post now (body req) xs = (Inl err, xs))"
  shows "(statusCode (fst (dispatch post now req xs)) = 201
            \<and> (\<exists>e. snd (dispatch post now req xs) = xs @ [e]))
         \<or> (statusCode (fst (dispatch post now req xs)) \<in> {400, 500}
            \<and> snd (dispatch post now req xs) = xs)"
  using assms
  by (auto simp: dispatch_def internal_error_def json_response_def)

subsection \<open>Stored records stay valid\<close>

lemma stored_valid_initial: "list_all stored_valid initial_expenses"
  by code_simp

lemma stored_valid_created:
  assumes "validateExpense b = Inr []" and "a \<noteq> NaN"
    and "get_prop b ''description'' = JStr d" and "get_prop b ''category'' = JStr c"
  shows "stored_valid (expense_from now b a d c)"
proof -
  have "\<not> field_rejected Description (get_prop b (field_name Description))"
    and "\<not> field_rejected Category (get_prop b (field_name Category))"
    and "\<not> field_rejected Date (get_prop b (field_name Date))"
    using valid_body_fields(4) [OF assms(1)] by blast+
  then show ?thesis
    using assms(2,3,4)
    by (simp add: stored_valid_def expense_from_def blank_text_def trim_idem)
qed

lemma create_expense_keeps_valid:
  assumes "validateExpense b = Inr []" and "list_all stored_valid xs"
  shows "list_all stored_valid (snd (create_expense now b xs))"
proof -
  obtain a d c where "a \<noteq> NaN"
    "get_prop b ''description'' = JStr d" "get_prop b ''category'' = JStr c"
    "create_expense now b xs =
       (Inr (created_response (expense_from now b a d c)), xs @ [expense_from now b a d c])"
    using create_expense_valid [OF assms(1), of now xs] by blast
  then show ?thesis
    using assms stored_valid_created [of b a d c now] by simp
qed

lemma post_expense_keeps_valid:
  assumes "list_all stored_valid xs"
  shows "list_all stored_valid (snd (post_expense now b xs))"
proof (cases "validateExpense (body_or_empty b)")
  case (Inl err)
  then show ?thesis using assms by (simp add: post_expense_def)
next
  case (Inr errors)
  show ?thesis
  proof (cases "errors = []")
    case True
    then have "truthy b"
      using Inr empty_object_rejected by (auto simp: body_or_empty_def split: if_splits)
    then have "validateExpense b = Inr []"
      using Inr True by (simp add: body_or_empty_def)
    then show ?thesis
      using create_expense_keeps_valid [OF _ assms, of b now] Inr True
      by (simp add: post_expense_def)
  next
    case False
    then show ?thesis using Inr assms by (simp add: post_expense_def)
  qed
qed

lemma post_expenses_keeps_valid:
  assumes "list_all stored_valid xs"
  shows "list_all stored_valid (snd (post_expenses now b xs))"
proof (cases "validateExpense b")
  case (Inl err)
  then show ?thesis using assms by (simp add: post_expenses_def)
next
  case (Inr errors)
  show ?thesis
  proof (cases "errors = []")
    case True
    then show ?thesis
      using create_expense_keeps_valid [OF _ assms, of b now] Inr
      by (simp add: post_expenses_def)
  next
    case False
    then show ?thesis using Inr assms by (simp add: post_expenses_def)
  qed
qed

lemma dispatch_keeps_valid:
  assumes "\<And>now b. list_all stored_valid (snd (post now b xs))"
    and "list_all stored_valid xs"
  shows "list_all stored_valid (snd (dispatch post now req xs))"
proof -
  have "list_all stored_valid (array_sort sort_compare xs)"
    using assms(2) by (simp add: list_all_iff set_array_sort)
  moreover have "list_all stored_valid
      (snd (case post now (body req) xs of
              (Inr res, xs') \<Rightarrow> (res, xs')
            | (Inl err, xs') \<Rightarrow> (internal_error, xs')))"
    using assms(1) [of now "body req"]
    by (cases "post now (body req) xs") (auto split: sum.splits)
  ultimately show ?thesis
    using assms(2) by (simp add: dispatch_def get_expenses_eq)
qed

lemma run_keeps_valid:
  assumes "\<And>now req xs. list_all stored_valid xs \<Longrightarrow> list_all stored_valid (snd (h now req xs))"
  shows "list_all stored_valid xs \<Longrightarrow> list_all stored_valid (run h rs xs)"
proof (induction rs arbitrary: xs)
  case Nil
  then show ?case by simp
next
  case (Cons r rs)
  obtain now req where r: "r = (now, req)" by (cases r)
  show ?case
    using Cons.IH [OF assms [OF Cons.prems, of now req]] by (simp add: r)
qed

text \<open>
  No stored date is a value whose conversion to a string throws, so \<^verbatim>\<open>new Date\<close> never
  throws in the comparison function of the GET branch.
\<close>

lemma stored_valid_convertible: "stored_valid e \<Longrightarrow> convertible (date e)"
  by (auto simp: stored_valid_def has_date_pattern_def convertible_def split: sum.splits)

lemma stored_dates_convert:
  "list_all (\<lambda>e. convertible (date e)) (run expense_handler rs initial_expenses)
   \<and> list_all (\<lambda>e. convertible (date e)) (run expenses_handler rs initial_expenses)"
proof -
  have "list_all stored_valid (run expense_handler rs initial_expenses)"
    by (rule run_keeps_valid [OF _ stored_valid_initial])
      (simp add: expense_handler_def dispatch_keeps_valid post_expense_keeps_valid)
  moreover have "list_all stored_valid (run expenses_handler rs initial_expenses)"
    by (rule run_keeps_valid [OF _ stored_valid_initial])
      (simp add: expenses_handler_def dispatch_keeps_valid post_expenses_keeps_valid)
  ultimately show ?thesis
    by (simp add: list_all_iff stored_valid_convertible)
qed

subsection \<open>Where the two files agree\<close>

lemma post_blocks_agree:
  assumes "b \<noteq> JUndefined" and "b \<noteq> JNull"
  shows "post_expenses now b xs = post_expense now b xs"
proof (cases "truthy b")
  case True
  then show ?thesis by (simp add: post_expense_def post_expenses_def body_or_empty_def)
next
  case False
  then have "validateExpense b = validateExpense (JObj [])"
    using assms by (simp add: validateExpense_falsy validateExpense_empty_object)
  then show ?thesis using False by (simp add: post_expense_def post_expenses_def body_or_empty_def)
qed

lemma handlers_agree_with_body:
  assumes "body req \<noteq> JUndefined" and "body req \<noteq> JNull"
  shows "expenses_handler now req xs = expense_handler now req xs"
  by (simp add: expense_handler_def expenses_handler_def dispatch_def
      post_blocks_agree [OF assms])

lemma handlers_agree_other_methods:
  assumes "req_method req \<noteq> ''POST''"
  shows "expenses_handler now req xs = expense_handler now req xs"
  using assms by (simp add: expense_handler_def expenses_handler_def dispatch_def)

subsection \<open>Sample evaluations\<close>

lemma unsorted_store_passes: "list_all date_passes unsorted_store"
  by code_simp

lemma unsorted_store_dates:
  "map date (snd (expense_handler 1004 get_request unsorted_store)) =
     [JStr ''2025-12-01'', JStr ''2025-11-30'', JStr ''2025-11-28'', JStr ''2025-13-40'',
      JStr ''2025-12-25'']"
  by code_simp

lemma unsorted_store_not_sorted:
  "\<not> sorted_wrt date_ge (snd (expense_handler 1004 get_request unsorted_store))"
  by code_simp

lemma unsorted_store_ends:
  "has_time (hd (snd (expense_handler 1004 get_request unsorted_store)))
   \<and> has_time (last (snd (expense_handler 1004 get_request unsorted_store)))
   \<and> \<not> date_ge (hd (snd (expense_handler 1004 get_request unsorted_store)))
         (last (snd (expense_handler 1004 get_request unsorted_store)))"
  by code_simp

lemma initial_has_time: "list_all has_time initial_expenses"
  by code_simp

lemma infinity_payload_valid: "validateExpense infinity_payload = Inr []"
  by code_simp

lemma infinity_parse: "parseFloat (get_prop infinity_payload ''amount'') = Inr PosInfinity"
  by code_simp

lemma infinity_status:
  "statusCode (fst (expense_handler 1001 (post_request infinity_payload) initial_expenses)) = 201"
  by code_simp

lemma infinity_returned:
  "get_prop (response_data (fst (expense_handler 1001 (post_request infinity_payload)
      initial_expenses))) ''amount'' = JNull"
  by code_simp

lemma infinity_stored:
  "map amount (snd (expense_handler 1001 (post_request infinity_payload) initial_expenses)) =
     [Dec 4599 (- 2), Dec 12 1, Dec 255 (- 1), PosInfinity]"
  by code_simp

lemma lunch_payload_valid: "validateExpense lunch_payload = Inr []"
  by code_simp

lemma lunch_amount: "parseFloat (get_prop lunch_payload ''amount'') = Inr (Dec 5 1)"
  by code_simp

lemma lunch_expense:
  "expense_from 1001 lunch_payload (Dec 5 1) ''Lunch'' ''Food'' =
     \<lparr>expense_id = ''e1001'', amount = Dec 5 1, description = ''Lunch'', category = ''Food'',
      date = JStr ''2025-12-05''\<rparr>"
  by code_simp

lemma three_errors_rejected:
  "rejected_fields (body_or_empty three_errors_payload) = [Amount, Description, Date]"
  by code_simp

lemma refund_payload_valid: "validateExpense refund_payload = Inr []"
  by code_simp

lemma untitled_payload_errors: "validateExpense untitled_payload = Inr [description_message]"
  by code_simp

lemma untitled_amount:
  "parseFloat (get_prop untitled_payload ''amount'') = Inr (Dec (- 125) (- 1))"
  by code_simp

lemma zero_payload_valid: "validateExpense zero_payload = Inr []"
  by code_simp

lemma zero_payload_status:
  "statusCode (fst (expense_handler 1001 (post_request zero_payload) initial_expenses)) = 201"
  by code_simp

lemma zero_payload_stored:
  "map amount (snd (expense_handler 1001 (post_request zero_payload) initial_expenses)) =
     [Dec 4599 (- 2), Dec 12 1, Dec 255 (- 1), Dec 0 0]"
  by code_simp

lemma zero_amounts_pass:
  "amount_invalid (JStr ''0'') = Inr False"
  "amount_invalid (JStr ''0.00'') = Inr False"
  "amount_invalid (JArr [JNum (Dec 0 0)]) = Inr False"
  "amount_invalid (JStr ''1e-400'') = Inr False"
  by code_simp+

lemma unconvertible_amount: "\<not> convertible (get_prop unconvertible_payload ''amount'')"
  by code_simp

lemma unconvertible_body_amount:
  "\<not> convertible (get_prop (body_or_empty unconvertible_payload) ''amount'')"
  by code_simp

lemma three_errors_convertible:
  "convertible (get_prop (body_or_empty three_errors_payload) ''amount'')"
  "convertible (get_prop (body_or_empty three_errors_payload) ''date'')"
  by code_simp+

lemma unconvertible_rejected:
  "rejected_fields (body_or_empty unconvertible_payload) = [Amount]"
  by code_simp

lemma unconvertible_throws: "validateExpense (body_or_empty unconvertible_payload) = Inl TypeError"
  by code_simp

lemma unconvertible_answer:
  "expense_handler 1001 (post_request unconvertible_payload) initial_expenses =
     (internal_error, initial_expenses)"
  by code_simp

lemma internal_error_details:
  "statusCode internal_error = 500 \<and> response_details internal_error = JUndefined"
  by code_simp

lemma sample_run_ids:
  "map expense_id
     (run expense_handler [(1001, post_request refund_payload), (1002, get_request)]
        initial_expenses) = [''e3'', ''e2'', ''e1'', ''e1001'']"
  by code_simp

lemma parseFloat_12abc: "parseFloat (JStr ''12abc'') = Inr (Dec 12 0)"
  by code_simp

lemma parseFloat_12: "parseFloat (JStr ''12'') = Inr (Dec 12 0)"
  by code_simp

lemma prefix_payload_valid: "validateExpense prefix_payload = Inr []"
  by code_simp

section \<open>The claims\<close>

subsection \<open>GET and the stored list\<close>

text \<open>
  Claim C1 says that a GET request leaves the stored list as it was, same records in the
  same order. It does not: right after the module is loaded the store holds \<open>e1\<close>,
  \<open>e2\<close>, \<open>e3\<close> in this order, and after one GET it holds \<open>e3\<close>, \<open>e2\<close>,
  \<open>e1\<close>.
\<close>

theorem get_reorders_initial_store:
  "map expense_id initial_expenses = [''e1'', ''e2'', ''e3'']
   \<and> map expense_id (snd (expense_handler 1001 get_request initial_expenses)) = [''e3'', ''e2'', ''e1'']
   \<and> snd (expense_handler 1001 get_request initial_expenses) \<noteq> initial_expenses"
proof -
  have 1: "map expense_id initial_expenses = [''e1'', ''e2'', ''e3'']"
    by (simp add: initial_expenses_def)
  have 2: "map expense_id (snd (expense_handler 1001 get_request initial_expenses)) = [''e3'', ''e2'', ''e1'']"
    by code_simp
  from 1 2 have "map expense_id (snd (expense_handler 1001 get_request initial_expenses))
      \<noteq> map expense_id initial_expenses"
    by simp
  then have "snd (expense_handler 1001 get_request initial_expenses) \<noteq> initial_expenses"
    by metis
  with 1 2 show ?thesis by blast
qed

text \<open>
  Claim C1, amended. A GET request adds, drops and changes no record: the store after it
  holds the same records with the same multiplicities. It does reorder them, and the
  stored list after the request is the list that the response presents. Both files
  behave alike here.
\<close>

theorem get_keeps_records_but_reorders:
  assumes "req_method req = ''GET''"
  shows "mset (snd (expense_handler now req xs)) = mset xs
       \<and> fst (expense_handler now req xs) =
           json_response 200
             (JObj [(''success'', JBool True),
                    (''data'', JArr (map expense_obj (snd (expense_handler now req xs))))])
       \<and> expenses_handler now req xs = expense_handler now req xs"
  by (simp add: expense_handler_def expenses_handler_def dispatch_get [OF assms]
      get_expenses_eq mset_array_sort)

text \<open>The amended claim C1 at the initial store.\<close>

theorem get_keeps_records_but_reorders_witness:
  "req_method get_request = ''GET''
   \<and> mset (snd (expense_handler 1001 get_request initial_expenses)) = mset initial_expenses
   \<and> expenses_handler 1001 get_request initial_expenses = expense_handler 1001 get_request initial_expenses"
  using get_keeps_records_but_reorders [OF get_request_method, of 1001 initial_expenses]
    get_request_method
  by blast

subsection \<open>The order of the list that GET returns\<close>

text \<open>
  When every stored date has a time value, the returned list is ordered by date, latest
  first, and it is the stable sort of the store.
\<close>

lemma get_sorted_when_dates_have_times:
  assumes "req_method req = ''GET''" and "list_all has_time xs"
  shows "sorted_wrt date_ge (snd (expense_handler now req xs))
       \<and> fst (expense_handler now req xs) =
           json_response 200
             (JObj [(''success'', JBool True),
                    (''data'', JArr (map expense_obj (snd (expense_handler now req xs))))])
       \<and> snd (expense_handler now req xs) =
           sort_key (\<lambda>e. - the (date_value (date e))) xs
       \<and> expenses_handler now req xs = expense_handler now req xs"
  using sorted_array_sort [of xs] array_sort_sort_key [of xs] assms(2)
  by (simp add: list_all_iff expense_handler_def expenses_handler_def dispatch_get [OF assms(1)]
      get_expenses_eq)

text \<open>
  Claim C2 says that the list returned by GET is ordered by date, latest first, whenever
  the stored dates passed the date check or are those of the initial records. The store
  \<open>unsorted_store\<close> is reached from the initial one by three requests, and each of
  its dates passed the check. A GET request on it returns \<^verbatim>\<open>2025-12-25\<close> last, after
  the three earlier dates of the initial records: each comparison with the record dated
  \<^verbatim>\<open>2025-13-40\<close> yields \<open>NaN\<close>, which \<^verbatim>\<open>sort\<close> takes for "equal", and the record
  of \<^verbatim>\<open>2025-12-25\<close> behind it is never moved. The first and the last date returned
  both have a time value, and the first is the earlier one. (In this array the
  comparison function has nothing against any record and its successor: their
  difference is of the right sign, zero or \<open>NaN\<close>. The insertion above compares nothing
  else here, and neither does a sort that first looks for a run already in order, as
  the one of Node does.)
\<close>

theorem get_unsorted_after_invalid_date:
  "list_all date_passes unsorted_store
   \<and> map date (snd (expense_handler 1004 get_request unsorted_store)) =
       [JStr ''2025-12-01'', JStr ''2025-11-30'', JStr ''2025-11-28'', JStr ''2025-13-40'',
        JStr ''2025-12-25'']
   \<and> \<not> sorted_wrt date_ge (snd (expense_handler 1004 get_request unsorted_store))
   \<and> has_time (hd (snd (expense_handler 1004 get_request unsorted_store)))
   \<and> has_time (last (snd (expense_handler 1004 get_request unsorted_store)))
   \<and> \<not> date_ge (hd (snd (expense_handler 1004 get_request unsorted_store)))
         (last (snd (expense_handler 1004 get_request unsorted_store)))"
  using unsorted_store_passes unsorted_store_dates unsorted_store_not_sorted unsorted_store_ends
  by simp

subsection \<open>A successful POST\<close>

text \<open>
  Claim C3 says that the expense returned by a valid POST has the parsed amount. The
  record that is stored has it, but the response is JSON text: for the amount
  \<^verbatim>\<open>"Infinity"\<close>, which passes validation and parses to the Number \<open>Infinity\<close>, the
  response carries \<^verbatim>\<open>null\<close>.
\<close>

theorem infinite_amount_returned_as_null:
  "validateExpense infinity_payload = Inr []
   \<and> parseFloat (get_prop infinity_payload ''amount'') = Inr PosInfinity
   \<and> statusCode (fst (expense_handler 1001 (post_request infinity_payload) initial_expenses)) = 201
   \<and> map amount (snd (expense_handler 1001 (post_request infinity_payload) initial_expenses)) =
       [Dec 4599 (- 2), Dec 12 1, Dec 255 (- 1), PosInfinity]
   \<and> get_prop (response_data (fst (expense_handler 1001 (post_request infinity_payload)
        initial_expenses))) ''amount'' = JNull
   \<and> get_prop (response_data (fst (expense_handler 1001 (post_request infinity_payload)
        initial_expenses))) ''amount''
       \<noteq> JNum PosInfinity"
  using infinity_payload_valid infinity_parse infinity_status infinity_stored infinity_returned
  by simp

text \<open>
  Claim C3, amended. For every POST whose payload passes the four checks, both files
  answer 201 and append one record: its id is \<^verbatim>\<open>e\<close> followed by the decimal digits of
  the clock reading, its amount is \<^verbatim>\<open>parseFloat\<close> of the amount of the payload, its
  description and category are the trimmed strings of the payload, and its date is the
  date of the payload as it came. The \<^verbatim>\<open>data\<close> of the response is this record as JSON:
  the same id, description and category, the amount when it is finite and \<^verbatim>\<open>null\<close>
  when it is an infinity, and the date as JSON writes it.
\<close>

theorem valid_post_creates_expense:
  assumes "req_method req = ''POST''" and "validateExpense (body req) = Inr []"
  shows "\<exists>a d c. parseFloat (get_prop (body req) ''amount'') = Inr a
           \<and> get_prop (body req) ''description'' = JStr d
           \<and> get_prop (body req) ''category'' = JStr c
           \<and> expense_handler now req xs =
               (created_response (expense_from now (body req) a d c),
                xs @ [expense_from now (body req) a d c])
           \<and> expenses_handler now req xs =
               (created_response (expense_from now (body req) a d c),
                xs @ [expense_from now (body req) a d c])
           \<and> statusCode (created_response (expense_from now (body req) a d c)) = 201
           \<and> response_data (created_response (expense_from now (body req) a d c)) =
               JObj [(''id'', JStr (''e'' @ digits_of now)),
                     (''amount'', if is_finite a then JNum a else JNull),
                     (''description'', JStr (trim d)), (''category'', JStr (trim c)),
                     (''date'', to_json (get_prop (body req) ''date''))]"
proof -
  obtain a d c where dc: "parseFloat (get_prop (body req) ''amount'') = Inr a"
      "get_prop (body req) ''description'' = JStr d"
      "get_prop (body req) ''category'' = JStr c"
    and cr: "create_expense now (body req) xs =
      (Inr (created_response (expense_from now (body req) a d c)),
       xs @ [expense_from now (body req) a d c])"
    using create_expense_valid [OF assms(2), of now xs] by blast
  have "get_prop (body req) ''date'' \<noteq> JUndefined"
    using valid_body_fields(4) [OF assms(2), of Date] by simp
  then have "date (expense_from now (body req) a d c) \<noteq> JUndefined"
    by (simp add: expense_from_def)
  then have rd: "response_data (created_response (expense_from now (body req) a d c)) =
               JObj [(''id'', JStr (''e'' @ digits_of now)),
                     (''amount'', if is_finite a then JNum a else JNull),
                     (''description'', JStr (trim d)), (''category'', JStr (trim c)),
                     (''date'', to_json (get_prop (body req) ''date''))]"
    by (simp add: response_data_created) (simp add: expense_from_def)
  have h1: "expense_handler now req xs =
               (created_response (expense_from now (body req) a d c),
                xs @ [expense_from now (body req) a d c])"
    by (simp add: expense_handler_def dispatch_post [OF assms(1)]
        post_expense_valid [OF assms(2)] cr)
  have h2: "expenses_handler now req xs =
               (created_response (expense_from now (body req) a d c),
                xs @ [expense_from now (body req) a d c])"
    by (simp add: expenses_handler_def dispatch_post [OF assms(1)]
        post_expenses_valid [OF assms(2)] cr)
  have "statusCode (created_response (expense_from now (body req) a d c)) = 201"
    by (simp add: created_response_def statusCode_json_response)
  then show ?thesis using dc h1 h2 rd by blast
qed

text \<open>The amended claim C3 at a payload with amount 50, posted to the initial store.\<close>

theorem valid_post_creates_expense_witness:
  "req_method (post_request lunch_payload) = ''POST''
   \<and> validateExpense (body (post_request lunch_payload)) = Inr []
   \<and> expense_handler 1001 (post_request lunch_payload) initial_expenses =
       (created_response
          \<lparr>expense_id = ''e1001'', amount = Dec 5 1, description = ''Lunch'', category = ''Food'',
           date = JStr ''2025-12-05''\<rparr>,
        initial_expenses @
          [\<lparr>expense_id = ''e1001'', amount = Dec 5 1, description = ''Lunch'', category = ''Food'',
            date = JStr ''2025-12-05''\<rparr>])"
proof -
  have v: "validateExpense (body (post_request lunch_payload)) = Inr []"
    by (simp add: post_request_body lunch_payload_valid)
  have p: "get_prop lunch_payload ''description'' = JStr ''Lunch''"
    "get_prop lunch_payload ''category'' = JStr ''Food''"
    by (simp_all add: lunch_payload_def)
  show ?thesis
    using valid_post_creates_expense [OF post_request_method v, of 1001 initial_expenses]
    by (auto simp: post_request_body p lunch_amount lunch_expense post_request_method
        lunch_payload_valid)
qed

subsection \<open>A rejected POST\<close>

text \<open>
  Claim C4 says that every POST whose payload has a missing or invalid field is answered
  with 400 and one message per such field. In the body
  \<^verbatim>\<open>{"amount": {"toString": 1}, "description": "Lunch", "category": "Food", "date": "2025-12-05"}\<close>
  the amount is not parseable, the other three fields are in order. \<^verbatim>\<open>parseFloat\<close>
  throws on this amount, \<^verbatim>\<open>validateExpense\<close> does not return, and \<^verbatim>\<open>catch\<close> answers 500
  without any \<^verbatim>\<open>details\<close>.
\<close>

theorem unconvertible_amount_answers_500:
  "rejected_fields (body_or_empty unconvertible_payload) = [Amount]
   \<and> validateExpense (body_or_empty unconvertible_payload) = Inl TypeError
   \<and> statusCode (fst (expense_handler 1001 (post_request unconvertible_payload)
        initial_expenses)) = 500
   \<and> response_details (fst (expense_handler 1001 (post_request unconvertible_payload)
        initial_expenses)) = JUndefined
   \<and> snd (expense_handler 1001 (post_request unconvertible_payload) initial_expenses) =
       initial_expenses"
  using unconvertible_rejected unconvertible_throws internal_error_details
  by (simp add: unconvertible_answer)

text \<open>
  Claim C4, amended. Take a POST to \<^verbatim>\<open>expense.js\<close> and its payload (the empty object
  when the body is falsy). If the amount and the date of the payload can be converted to
  strings and at least one field is missing or invalid, the response is 400 with the
  error \<^verbatim>\<open>Validation Failed\<close>, the store is unchanged, and \<^verbatim>\<open>details\<close> holds exactly
  one message for each rejected field and none for the others: all four checks run, the
  messages are pairwise different, and there are as many as rejected fields;
  \<^verbatim>\<open>expenses.js\<close> answers the same whenever the body is neither \<open>undefined\<close> nor
  \<^verbatim>\<open>null\<close>. If the conversion of the amount or of the date throws (an object with a
  property \<^verbatim>\<open>toString\<close> of its own, or an array that holds one), the response is 500
  without \<^verbatim>\<open>details\<close>, whatever the other fields are, and the store is unchanged.
\<close>

theorem invalid_post_lists_rejected_fields:
  assumes "req_method req = ''POST''"
  shows "(convertible (get_prop (body_or_empty (body req)) ''amount'')
          \<and> convertible (get_prop (body_or_empty (body req)) ''date'')
          \<and> rejected_fields (body_or_empty (body req)) \<noteq> []
          \<longrightarrow>
            expense_handler now req xs =
              (validation_failed (map field_message (rejected_fields (body_or_empty (body req)))),
               xs)
          \<and> statusCode (fst (expense_handler now req xs)) = 400
          \<and> response_error (fst (expense_handler now req xs)) = JStr ''Validation Failed''
          \<and> response_details (fst (expense_handler now req xs)) =
              JArr (map JStr (map field_message (rejected_fields (body_or_empty (body req)))))
          \<and> distinct (map field_message (rejected_fields (body_or_empty (body req))))
          \<and> set (rejected_fields (body_or_empty (body req))) =
              {f. field_rejected f (get_prop (body_or_empty (body req)) (field_name f))}
          \<and> length (map field_message (rejected_fields (body_or_empty (body req)))) =
              card {f. field_rejected f (get_prop (body_or_empty (body req)) (field_name f))}
          \<and> (body req \<noteq> JUndefined \<and> body req \<noteq> JNull
               \<longrightarrow> expenses_handler now req xs = expense_handler now req xs))
       \<and> (\<not> convertible (get_prop (body_or_empty (body req)) ''amount'')
          \<or> \<not> convertible (get_prop (body_or_empty (body req)) ''date'')
          \<longrightarrow>
            expense_handler now req xs = (internal_error, xs)
          \<and> statusCode (fst (expense_handler now req xs)) = 500
          \<and> response_details (fst (expense_handler now req xs)) = JUndefined)"
proof (intro conjI impI)
  let ?data = "body_or_empty (body req)"
  let ?msgs = "map field_message (rejected_fields ?data)"
  assume c: "convertible (get_prop ?data ''amount'') \<and> convertible (get_prop ?data ''date'')
      \<and> rejected_fields ?data \<noteq> []"
  have v: "validateExpense ?data = Inr ?msgs"
    using c by (simp add: validateExpense_rejected rejected_body_or_empty)
  have h: "expense_handler now req xs = (validation_failed ?msgs, xs)"
    using c
    by (simp add: expense_handler_def dispatch_post [OF assms] post_expense_def v)
  have d: "distinct ?msgs"
    by (simp add: distinct_map distinct_rejected_fields inj_on_def field_message_inj)
  have "card (set (rejected_fields ?data)) = length (rejected_fields ?data)"
    by (rule distinct_card) (rule distinct_rejected_fields)
  then have l: "length ?msgs = card {f. field_rejected f (get_prop ?data (field_name f))}"
    by (simp add: set_rejected_fields)
  have e: "response_error (validation_failed ?msgs) = JStr ''Validation Failed''"
    by (simp add: response_error_def validation_failed_def json_response_def)
  have ds: "to_json (JArr (map JStr ms)) = JArr (map JStr ms)" for ms
    by (induction ms) auto
  have t: "response_details (validation_failed ?msgs) = JArr (map JStr ?msgs)"
    using ds [of ?msgs]
    by (simp add: response_details_def validation_failed_def json_response_def del: to_json.simps(2))
  show "expense_handler now req xs = (validation_failed ?msgs, xs)"
    by (rule h)
  show "statusCode (fst (expense_handler now req xs)) = 400"
    by (simp add: h validation_failed_def statusCode_json_response)
  show "response_error (fst (expense_handler now req xs)) = JStr ''Validation Failed''"
    by (simp add: h e)
  show "response_details (fst (expense_handler now req xs)) = JArr (map JStr ?msgs)"
    by (simp add: h t)
  show "distinct ?msgs" by (rule d)
  show "set (rejected_fields ?data) = {f. field_rejected f (get_prop ?data (field_name f))}"
    by (rule set_rejected_fields)
  show "length ?msgs = card {f. field_rejected f (get_prop ?data (field_name f))}"
    by (rule l)
  show "expenses_handler now req xs = expense_handler now req xs"
    if "body req \<noteq> JUndefined \<and> body req \<noteq> JNull"
    using that by (simp add: handlers_agree_with_body)
next
  let ?data = "body_or_empty (body req)"
  assume c: "\<not> convertible (get_prop ?data ''amount'') \<or> \<not> convertible (get_prop ?data ''date'')"
  have h: "expense_handler now req xs = (internal_error, xs)"
    by (simp add: expense_handler_def dispatch_post [OF assms] post_expense_def
        validateExpense_throws [OF c])
  show "expense_handler now req xs = (internal_error, xs)"
    by (rule h)
  show "statusCode (fst (expense_handler now req xs)) = 500"
    by (simp add: h internal_error_def statusCode_json_response)
  show "response_details (fst (expense_handler now req xs)) = JUndefined"
    by (simp add: h internal_error_def response_details_def json_response_def)
qed

text \<open>
  The amended claim C4 at a payload that fails on amount, description and date (three
  messages), and at the payload whose amount cannot be converted.
\<close>

theorem invalid_post_lists_rejected_fields_witness:
  "req_method (post_request three_errors_payload) = ''POST''
   \<and> convertible (get_prop (body_or_empty (body (post_request three_errors_payload))) ''amount'')
   \<and> convertible (get_prop (body_or_empty (body (post_request three_errors_payload))) ''date'')
   \<and> rejected_fields (body_or_empty (body (post_request three_errors_payload))) \<noteq> []
   \<and> statusCode (fst (expense_handler 1001 (post_request three_errors_payload) initial_expenses)) = 400
   \<and> response_details (fst (expense_handler 1001 (post_request three_errors_payload) initial_expenses)) =
       JArr [JStr amount_message, JStr description_message, JStr date_message]
   \<and> snd (expense_handler 1001 (post_request three_errors_payload) initial_expenses) = initial_expenses
   \<and> \<not> convertible (get_prop (body_or_empty (body (post_request unconvertible_payload))) ''amount'')
   \<and> statusCode (fst (expense_handler 1001 (post_request unconvertible_payload) initial_expenses)) = 500"
proof -
  have r: "rejected_fields (body_or_empty (body (post_request three_errors_payload))) \<noteq> []"
    by (simp add: post_request_body three_errors_rejected)
  have ca: "convertible (get_prop (body_or_empty (body (post_request three_errors_payload))) ''amount'')"
    and cd: "convertible (get_prop (body_or_empty (body (post_request three_errors_payload))) ''date'')"
    by (simp_all add: post_request_body three_errors_convertible)
  note w = invalid_post_lists_rejected_fields [OF post_request_method,
      of three_errors_payload 1001 initial_expenses]
  have s: "statusCode (fst (expense_handler 1001 (post_request three_errors_payload)
      initial_expenses)) = 400"
    using w r ca cd by blast
  have "response_details (fst (expense_handler 1001 (post_request three_errors_payload)
      initial_expenses)) =
    JArr (map JStr (map field_message
      (rejected_fields (body_or_empty (body (post_request three_errors_payload))))))"
    using w r ca cd by blast
  then have d: "response_details (fst (expense_handler 1001 (post_request three_errors_payload)
      initial_expenses)) = JArr [JStr amount_message, JStr description_message, JStr date_message]"
    by (simp add: post_request_body three_errors_rejected)
  have "expense_handler 1001 (post_request three_errors_payload) initial_expenses =
      (validation_failed (map field_message
         (rejected_fields (body_or_empty (body (post_request three_errors_payload))))),
       initial_expenses)"
    using w r ca cd by blast
  then have x: "snd (expense_handler 1001 (post_request three_errors_payload) initial_expenses) =
      initial_expenses"
    by simp
  have u: "\<not> convertible (get_prop (body_or_empty (body (post_request unconvertible_payload)))
      ''amount'')"
    by (simp add: post_request_body unconvertible_body_amount)
  have y: "statusCode (fst (expense_handler 1001 (post_request unconvertible_payload)
      initial_expenses)) = 500"
    using invalid_post_lists_rejected_fields [OF post_request_method,
      of unconvertible_payload 1001 initial_expenses] u
    by blast
  show ?thesis using post_request_method r ca cd s d x u y by blast
qed

subsection \<open>Atomicity of POST\<close>

text \<open>
  Claim C5. POST is atomic: for every POST request and every store, in either
  file, the response is 201 and the new store is the old one with exactly one record
  appended, or the response is 400 or 500 and the store is unchanged.
\<close>

theorem post_is_atomic:
  assumes "req_method req = ''POST''"
  shows "((statusCode (fst (expense_handler now req xs)) = 201
            \<and> (\<exists>e. snd (expense_handler now req xs) = xs @ [e]))
         \<or> (statusCode (fst (expense_handler now req xs)) \<in> {400, 500}
            \<and> snd (expense_handler now req xs) = xs))
       \<and> ((statusCode (fst (expenses_handler now req xs)) = 201
            \<and> (\<exists>e. snd (expenses_handler now req xs) = xs @ [e]))
         \<or> (statusCode (fst (expenses_handler now req xs)) \<in> {400, 500}
            \<and> snd (expenses_handler now req xs) = xs))"
  unfolding expense_handler_def expenses_handler_def
  using dispatch_post_atomic [where post = post_expense, OF assms post_expense_cases]
    dispatch_post_atomic [where post = post_expenses, OF assms post_expenses_cases]
  by blast

text \<open>Claim C5 at a valid payload posted to the initial store.\<close>

theorem post_is_atomic_witness:
  "req_method (post_request lunch_payload) = ''POST''
   \<and> (statusCode (fst (expense_handler 1001 (post_request lunch_payload) initial_expenses)) = 201
        \<and> (\<exists>e. snd (expense_handler 1001 (post_request lunch_payload) initial_expenses) =
                  initial_expenses @ [e])
      \<or> statusCode (fst (expense_handler 1001 (post_request lunch_payload) initial_expenses))
          \<in> {400, 500}
        \<and> snd (expense_handler 1001 (post_request lunch_payload) initial_expenses) =
            initial_expenses)"
  using post_is_atomic [where req = "post_request lunch_payload" and now = 1001
      and xs = initial_expenses, OF post_request_method]
    post_request_method [of lunch_payload]
  by blast

subsection \<open>The date check\<close>

text \<open>
  Claim C6. Whenever \<^verbatim>\<open>validateExpense\<close> returns its list of messages, the date of
  the payload passes (no date message) exactly when it is present and, converted to a
  string as the regular expression test does, consists of four digits, a hyphen, two
  digits, a hyphen and two digits. Nothing else is asked of it: \<^verbatim>\<open>2025-13-40\<close> and
  \<^verbatim>\<open>2025-02-30\<close> pass.
\<close>

theorem date_check_is_pattern_only:
  assumes "validateExpense data = Inr errors"
  shows "(date_message \<notin> set errors \<longleftrightarrow>
            get_prop data ''date'' \<noteq> JUndefined \<and> has_date_pattern (get_prop data ''date''))
       \<and> (get_prop data ''date'' = JStr ''2025-13-40'' \<or> get_prop data ''date'' = JStr ''2025-02-30''
            \<longrightarrow> date_message \<notin> set errors)"
proof -
  have m: "date_message \<in> set errors \<longleftrightarrow> field_rejected Date (get_prop data ''date'')"
    using message_in_errors [OF assms, of Date] by simp
  have "has_date_pattern (JStr ''2025-13-40'')" "has_date_pattern (JStr ''2025-02-30'')"
    by (simp_all add: has_date_pattern_def four_two_two_def is_digit_def)
  then show ?thesis using m by auto
qed

text \<open>Claim C6 at a payload dated \<^verbatim>\<open>2025-02-30\<close> with a blank description.\<close>

theorem date_check_is_pattern_only_witness:
  "validateExpense untitled_payload = Inr [description_message]
   \<and> get_prop untitled_payload ''date'' = JStr ''2025-02-30''
   \<and> date_message \<notin> set [description_message]"
proof -
  have d: "get_prop untitled_payload ''date'' = JStr ''2025-02-30''"
    by (simp add: untitled_payload_def)
  have "date_message \<notin> set [description_message]"
    using date_check_is_pattern_only [OF untitled_payload_errors] d by blast
  then show ?thesis
    using untitled_payload_errors d by blast
qed

subsection \<open>The amount check\<close>

text \<open>
  Claim C7 says that the amount is rejected exactly when it is missing, zero or falsy, or
  not parseable. The amount \<^verbatim>\<open>"0"\<close> is zero, and it is accepted: the string is not
  empty, so it is truthy, and \<^verbatim>\<open>parseFloat\<close> reads the number 0 from it, which is not
  \<open>NaN\<close>. The record is stored with the amount 0.
\<close>

theorem zero_amount_accepted:
  "get_prop zero_payload ''amount'' = JStr ''0''
   \<and> parseFloat (JStr ''0'') = Inr (Dec 0 0)
   \<and> validateExpense zero_payload = Inr []
   \<and> statusCode (fst (expense_handler 1001 (post_request zero_payload) initial_expenses)) = 201
   \<and> map amount (snd (expense_handler 1001 (post_request zero_payload) initial_expenses)) =
       [Dec 4599 (- 2), Dec 12 1, Dec 255 (- 1), Dec 0 0]"
  using parseFloat_string_zero zero_payload_valid zero_payload_status zero_payload_stored
  by (simp add: zero_payload_def)

text \<open>
  Claim C7, amended. Whenever \<^verbatim>\<open>validateExpense\<close> returns its list of messages, the
  amount of the payload is rejected exactly when it is missing, is a falsy value
  (\<^verbatim>\<open>null\<close>, \<^verbatim>\<open>false\<close>, the empty string, the Number zero or \<open>NaN\<close>), or has a string
  conversion from which \<^verbatim>\<open>parseFloat\<close> reads no number. No sign or range is asked for:
  every truthy amount from which \<^verbatim>\<open>parseFloat\<close> reads a number is accepted, a negative
  one and a zero alike, so \<^verbatim>\<open>"0"\<close>, \<^verbatim>\<open>"0.00"\<close>, \<^verbatim>\<open>[0]\<close> and \<^verbatim>\<open>"1e-400"\<close> are
  accepted. When the conversion of the amount to a string throws, \<^verbatim>\<open>validateExpense\<close>
  throws and there is no list of messages at all.
\<close>

theorem amount_check:
  "(validateExpense data = Inr errors \<longrightarrow>
      (amount_message \<in> set errors \<longleftrightarrow>
         get_prop data ''amount'' = JUndefined
         \<or> get_prop data ''amount'' = JNull \<or> get_prop data ''amount'' = JBool False
         \<or> get_prop data ''amount'' = JStr [] \<or> get_prop data ''amount'' = JNum NaN
         \<or> (\<exists>e. get_prop data ''amount'' = JNum (Dec 0 e))
         \<or> parseFloat (get_prop data ''amount'') = Inr NaN)
      \<and> (truthy (get_prop data ''amount'') \<and> parseable (get_prop data ''amount'')
           \<longrightarrow> amount_message \<notin> set errors)
      \<and> (get_prop data ''amount'' = JStr ''0'' \<or> get_prop data ''amount'' = JStr ''0.00''
           \<or> get_prop data ''amount'' = JArr [JNum (Dec 0 0)]
           \<or> get_prop data ''amount'' = JStr ''1e-400''
           \<longrightarrow> amount_message \<notin> set errors))
   \<and> (data \<noteq> JUndefined \<and> data \<noteq> JNull \<and> \<not> convertible (get_prop data ''amount'')
        \<longrightarrow> validateExpense data = Inl TypeError)"
proof (intro conjI impI)
  assume v: "validateExpense data = Inr errors"
  let ?a = "get_prop data ''amount''"
  have m: "amount_message \<in> set errors \<longleftrightarrow> field_rejected Amount ?a"
    using message_in_errors [OF v, of Amount] by simp
  have c: "convertible ?a"
    using validateExpense_Inr(4) [OF v] .
  have r: "field_rejected Amount ?a \<longleftrightarrow> \<not> truthy ?a \<or> parseFloat ?a = Inr NaN"
    using c by (auto simp: parseable_def parseFloat_def convertible_def split: sum.splits)
  show "amount_message \<in> set errors \<longleftrightarrow>
         ?a = JUndefined \<or> ?a = JNull \<or> ?a = JBool False \<or> ?a = JStr [] \<or> ?a = JNum NaN
         \<or> (\<exists>e. ?a = JNum (Dec 0 e)) \<or> parseFloat ?a = Inr NaN"
    using m r falsy_cases [of ?a] by auto
  show "amount_message \<notin> set errors" if "truthy ?a \<and> parseable ?a"
    using that m by auto
  show "amount_message \<notin> set errors"
    if "?a = JStr ''0'' \<or> ?a = JStr ''0.00'' \<or> ?a = JArr [JNum (Dec 0 0)] \<or> ?a = JStr ''1e-400''"
  proof -
    have "amount_invalid ?a = Inr False"
      using that zero_amounts_pass by auto
    then have "\<not> field_rejected Amount ?a"
      by (simp add: amount_invalid_eq split: if_splits)
    then show ?thesis using m by simp
  qed
next
  assume "data \<noteq> JUndefined \<and> data \<noteq> JNull \<and> \<not> convertible (get_prop data ''amount'')"
  then show "validateExpense data = Inl TypeError"
    by (simp add: validateExpense_throws)
qed

text \<open>
  The amended claim C7 at a payload with the amount -12.5 and a blank description, and
  at the payload whose amount cannot be converted.
\<close>

theorem amount_check_witness:
  "validateExpense untitled_payload = Inr [description_message]
   \<and> get_prop untitled_payload ''amount'' = JNum (Dec (- 125) (- 1))
   \<and> truthy (get_prop untitled_payload ''amount'')
   \<and> parseable (get_prop untitled_payload ''amount'')
   \<and> amount_message \<notin> set [description_message]
   \<and> unconvertible_payload \<noteq> JUndefined \<and> unconvertible_payload \<noteq> JNull
   \<and> \<not> convertible (get_prop unconvertible_payload ''amount'')
   \<and> validateExpense unconvertible_payload = Inl TypeError"
proof -
  have a: "get_prop untitled_payload ''amount'' = JNum (Dec (- 125) (- 1))"
    by (simp add: untitled_payload_def)
  have t: "truthy (get_prop untitled_payload ''amount'')"
    by (simp add: a)
  have p: "parseable (get_prop untitled_payload ''amount'')"
    by (simp add: parseable_def untitled_amount)
  have n: "amount_message \<notin> set [description_message]"
    using amount_check [of untitled_payload "[description_message]"] untitled_payload_errors t p
    by blast
  have u: "unconvertible_payload \<noteq> JUndefined" "unconvertible_payload \<noteq> JNull"
    by (simp_all add: unconvertible_payload_def)
  have x: "validateExpense unconvertible_payload = Inl TypeError"
    using amount_check [of unconvertible_payload "[]"] u unconvertible_amount
    by blast
  show ?thesis
    using untitled_payload_errors a t p n u unconvertible_amount x by blast
qed

subsection \<open>The two files\<close>

text \<open>
  Claim C8 says that the two files answer every request alike, also a POST without a
  body. They agree on every request whose body is neither \<open>undefined\<close> nor \<^verbatim>\<open>null\<close>
  and on every request that is not a POST (lemmas above). On a POST without a body
  \<^verbatim>\<open>expense.js\<close> validates the empty object and answers 400 with four messages, while
  \<^verbatim>\<open>expenses.js\<close> throws on the destructuring inside \<^verbatim>\<open>validateExpense\<close> and answers
  500.
\<close>

theorem handlers_differ_without_body:
  "expense_handler now (post_request JUndefined) xs =
     (validation_failed [amount_message, description_message, category_message, date_message], xs)
   \<and> statusCode (fst (expense_handler now (post_request JUndefined) xs)) = 400
   \<and> expenses_handler now (post_request JUndefined) xs = (internal_error, xs)
   \<and> statusCode (fst (expenses_handler now (post_request JUndefined) xs)) = 500"
proof -
  have v: "validateExpense (JObj []) =
      Inr [amount_message, description_message, category_message, date_message]"
    by (rule validateExpense_empty_object)
  have m: "req_method (post_request JUndefined) = ''POST''" "body (post_request JUndefined) = JUndefined"
    by (simp_all add: post_request_def)
  have 1: "expense_handler now (post_request JUndefined) xs =
     (validation_failed [amount_message, description_message, category_message, date_message], xs)"
    by (simp add: expense_handler_def dispatch_post [OF m(1)] m(2) post_expense_def
        body_or_empty_def v)
  have 2: "expenses_handler now (post_request JUndefined) xs = (internal_error, xs)"
    by (simp add: expenses_handler_def dispatch_post [OF m(1)] m(2) post_expenses_def
        validateExpense_eq)
  show ?thesis
    by (simp add: 1 2 validation_failed_def internal_error_def statusCode_json_response)
qed

text \<open>The two answers of claim C8 at the initial store.\<close>

theorem handlers_differ_without_body_witness:
  "statusCode (fst (expense_handler 1001 (post_request JUndefined) initial_expenses)) = 400
   \<and> statusCode (fst (expenses_handler 1001 (post_request JUndefined) initial_expenses)) = 500"
  using handlers_differ_without_body [of 1001 initial_expenses]
  by blast

subsection \<open>The invariant of the store\<close>

text \<open>
  Claim C9. After any sequence of requests to either file, starting from the three
  initial records, every stored record has an amount that is a Number other than
  \<open>NaN\<close>, a description and a category that are non-empty and equal to their trimmed
  form, a date that is present and whose string conversion has the pattern of four
  digits, hyphen, two digits, hyphen, two digits, and an id that starts with \<^verbatim>\<open>e\<close>.
\<close>

theorem stored_records_stay_valid:
  "list_all stored_valid (run expense_handler rs initial_expenses)
   \<and> list_all stored_valid (run expenses_handler rs initial_expenses)"
proof
  show "list_all stored_valid (run expense_handler rs initial_expenses)"
    by (rule run_keeps_valid [OF _ stored_valid_initial])
      (simp add: expense_handler_def dispatch_keeps_valid post_expense_keeps_valid)
  show "list_all stored_valid (run expenses_handler rs initial_expenses)"
    by (rule run_keeps_valid [OF _ stored_valid_initial])
      (simp add: expenses_handler_def dispatch_keeps_valid post_expenses_keeps_valid)
qed

text \<open>Claim C9 after a POST and a GET.\<close>

theorem stored_records_stay_valid_witness:
  "map expense_id
     (run expense_handler [(1001, post_request refund_payload), (1002, get_request)]
        initial_expenses) = [''e3'', ''e2'', ''e1'', ''e1001'']
   \<and> list_all stored_valid
        (run expense_handler [(1001, post_request refund_payload), (1002, get_request)]
           initial_expenses)"
  using stored_records_stay_valid [of "[(1001, post_request refund_payload), (1002, get_request)]"]
    sample_run_ids
  by blast

subsection \<open>An amount with a numeric prefix\<close>

text \<open>
  Claim C10. The payload whose amount is the string \<^verbatim>\<open>12abc\<close> passes validation, at any
  time and on any store; the record created has the amount 12, which is what
  \<^verbatim>\<open>parseFloat\<close> makes of the prefix \<^verbatim>\<open>12\<close> alone.
\<close>

theorem numeric_prefix_amount_accepted:
  "get_prop prefix_payload ''amount'' = JStr ''12abc''
   \<and> validateExpense prefix_payload = Inr []
   \<and> parseFloat (JStr ''12abc'') = Inr (Dec 12 0)
   \<and> parseFloat (JStr ''12'') = Inr (Dec 12 0)
   \<and> expense_handler now (post_request prefix_payload) xs =
       (created_response
          \<lparr>expense_id = ''e'' @ digits_of now, amount = Dec 12 0, description = ''Lunch'',
           category = ''Food'', date = JStr ''2025-12-05''\<rparr>,
        xs @ [\<lparr>expense_id = ''e'' @ digits_of now, amount = Dec 12 0, description = ''Lunch'',
               category = ''Food'', date = JStr ''2025-12-05''\<rparr>])
   \<and> statusCode (fst (expense_handler now (post_request prefix_payload) xs)) = 201"
proof -
  have m: "req_method (post_request prefix_payload) = ''POST''"
    and b: "body (post_request prefix_payload) = prefix_payload"
    by (simp_all add: post_request_def)
  have v: "validateExpense (body (post_request prefix_payload)) = Inr []"
    by (simp add: b prefix_payload_valid)
  have p: "get_prop prefix_payload ''amount'' = JStr ''12abc''"
    "get_prop prefix_payload ''description'' = JStr ''Lunch''"
    "get_prop prefix_payload ''category'' = JStr ''Food''"
    "get_prop prefix_payload ''date'' = JStr ''2025-12-05''"
    by (simp_all add: prefix_payload_def)
  have t: "trim ''Lunch'' = ''Lunch''" "trim ''Food'' = ''Food''"
    by (simp_all add: trim_def is_ws_def)
  have e: "expense_from now prefix_payload (Dec 12 0) ''Lunch'' ''Food'' =
      \<lparr>expense_id = ''e'' @ digits_of now, amount = Dec 12 0, description = ''Lunch'',
       category = ''Food'', date = JStr ''2025-12-05''\<rparr>"
    by (simp add: expense_from_def p t)
  have h: "expense_handler now (post_request prefix_payload) xs =
       (created_response (expense_from now prefix_payload (Dec 12 0) ''Lunch'' ''Food''),
        xs @ [expense_from now prefix_payload (Dec 12 0) ''Lunch'' ''Food''])"
    using valid_post_handlers [OF m v, of now xs] by (auto simp: b p parseFloat_12abc)
  show ?thesis
    using h by (simp add: e p prefix_payload_valid parseFloat_12abc parseFloat_12
        created_response_def statusCode_json_response)
qed

text \<open>Claim C10 on the initial store.\<close>

theorem numeric_prefix_amount_accepted_witness:
  "statusCode (fst (expense_handler 1001 (post_request prefix_payload) initial_expenses)) = 201
   \<and> map amount (snd (expense_handler 1001 (post_request prefix_payload) initial_expenses)) =
       [Dec 4599 (- 2), Dec 12 1, Dec 255 (- 1), Dec 12 0]"
proof -
  note w = numeric_prefix_amount_accepted [of 1001 initial_expenses]
  have s: "statusCode (fst (expense_handler 1001 (post_request prefix_payload)
      initial_expenses)) = 201"
    using w by blast
  have "expense_handler 1001 (post_request prefix_payload) initial_expenses =
       (created_response
          \<lparr>expense_id = ''e'' @ digits_of 1001, amount = Dec 12 0, description = ''Lunch'',
           category = ''Food'', date = JStr ''2025-12-05''\<rparr>,
        initial_expenses @
          [\<lparr>expense_id = ''e'' @ digits_of 1001, amount = Dec 12 0, description = ''Lunch'',
            category = ''Food'', date = JStr ''2025-12-05''\<rparr>])"
    using w by blast
  then have "map amount (snd (expense_handler 1001 (post_request prefix_payload)
      initial_expenses)) = map amount initial_expenses @ [Dec 12 0]"
    by simp
  then show ?thesis using s by (simp add: initial_expenses_def)
qed

end
